theory Spec2Isabelle
  imports Complex_Main
begin

unbundle bit_operations_syntax

section \<open>Python primitives used by nmea2gpx.py\<close>

text \<open>
  Exceptions are values. A function of the source that can raise returns
  \<open>py_error + 'a\<close>, with \<open>Inl\<close> the exception raised first in evaluation order.
  \<open>ChecksumError\<close> is the source's own subclass of \<open>ValueError\<close>.
\<close>

datatype py_error = ValueError | IndexError | OverflowError | ChecksumError | RuntimeError

definition bind_err :: "py_error + 'a \<Rightarrow> ('a \<Rightarrow> py_error + 'b) \<Rightarrow> py_error + 'b" where
  "bind_err m f = (case m of Inl e \<Rightarrow> Inl e | Inr x \<Rightarrow> f x)"

text \<open>\<open>xs[i]\<close> for a constant, non-negative index: IndexError out of range.\<close>

definition index :: "'a list \<Rightarrow> nat \<Rightarrow> py_error + 'a" where
  "index xs i = (if i < length xs then Inr (xs ! i) else Inl IndexError)"

text \<open>\<open>s[a:b]\<close> for constant non-negative bounds: a slice never raises.\<close>

definition slice :: "'a list \<Rightarrow> nat \<Rightarrow> nat \<Rightarrow> 'a list" where
  "slice xs a b = take (b - a) (drop a xs)"

subsection \<open>Strings\<close>

text \<open>
  Lines reach the parser decoded as ASCII (\<open>parse_nmea_stream\<close> drops every other
  byte), so a string is a list of 8-bit characters. \<open>isspace\<close> lists the ASCII
  characters that \<open>str.strip()\<close>, \<open>int()\<close> and \<open>float()\<close> treat as white space.
\<close>

definition isspace :: "char \<Rightarrow> bool" where
  "isspace c = ((of_char c :: nat) \<in> {9, 10, 11, 12, 13, 28, 29, 30, 31, 32})"

definition strip :: "string \<Rightarrow> string" where
  "strip s = rev (dropWhile isspace (rev (dropWhile isspace s)))"

definition isdigit :: "char \<Rightarrow> bool" where
  "isdigit c = (48 \<le> (of_char c :: nat) \<and> (of_char c :: nat) \<le> 57)"

definition upper_char :: "char \<Rightarrow> char" where
  "upper_char c =
     (if 97 \<le> (of_char c :: nat) \<and> (of_char c :: nat) \<le> 122
      then char_of ((of_char c :: nat) - 32) else c)"

definition upper :: "string \<Rightarrow> string" where
  "upper s = map upper_char s"

definition lower_char :: "char \<Rightarrow> char" where
  "lower_char c =
     (if 65 \<le> (of_char c :: nat) \<and> (of_char c :: nat) \<le> 90
      then char_of ((of_char c :: nat) + 32) else c)"

definition lower :: "string \<Rightarrow> string" where
  "lower s = map lower_char s"

text \<open>\<open>s.split(sep)\<close> for a one-character separator: never empty, \<open>''.split(',') = ['']\<close>.\<close>

fun split :: "char \<Rightarrow> string \<Rightarrow> string list" where
  "split sep [] = [[]]"
| "split sep (c # cs) =
     (if c = sep then [] # split sep cs
      else (case split sep cs of
              [] \<Rightarrow> [[c]]
            | p # ps \<Rightarrow> (c # p) # ps))"

definition startswith :: "string \<Rightarrow> string \<Rightarrow> bool" where
  "startswith s p = (take (length p) s = p)"

text \<open>\<open>line.replace('\x00', '')\<close>\<close>

definition remove_nulls :: "string \<Rightarrow> string" where
  "remove_nulls s = filter (\<lambda>c. c \<noteq> CHR 0x00) s"

subsection \<open>Numbers\<close>

text \<open>
  \<open>int(s)\<close> and \<open>float(s)\<close> accept single underscores between digits: an
  underscore must follow a digit and be followed by a digit. \<open>remove_underscores\<close>
  is that check, with the previous character threaded through as CPython does.
\<close>

fun remove_underscores :: "char option \<Rightarrow> string \<Rightarrow> string option" where
  "remove_underscores prev [] =
     (if prev = Some (CHR ''_'') then None else Some [])"
| "remove_underscores prev (c # cs) =
     (if c = CHR ''_''
      then (case prev of
              None \<Rightarrow> None
            | Some p \<Rightarrow> if isdigit p then remove_underscores (Some c) cs else None)
      else if prev = Some (CHR ''_'') \<and> \<not> isdigit c then None
      else map_option ((#) c) (remove_underscores (Some c) cs))"

definition digit_val :: "char \<Rightarrow> nat" where
  "digit_val c = (of_char c :: nat) - 48"

definition digits_val :: "string \<Rightarrow> nat" where
  "digits_val ds = foldl (\<lambda>acc c. 10 * acc + digit_val c) 0 ds"

text \<open>An optional sign: \<open>(negative, rest)\<close>.\<close>

fun take_sign :: "string \<Rightarrow> bool \<times> string" where
  "take_sign [] = (False, [])"
| "take_sign (c # cs) =
     (if c = CHR ''-'' then (True, cs)
      else if c = CHR ''+'' then (False, cs)
      else (False, c # cs))"

text \<open>
  \<open>int(s)\<close> in base 10: white space stripped at both ends, an optional sign, at
  least one digit; anything else is a ValueError. Python integers are unbounded,
  but the conversion from a string refuses more than \<open>sys.int_max_str_digits\<close>
  digits (4300, in CPython 3.11 and later).
\<close>

definition py_int :: "string \<Rightarrow> py_error + int" where
  "py_int s =
     (case remove_underscores None (snd (take_sign (strip s))) of
        None \<Rightarrow> Inl ValueError
      | Some ds \<Rightarrow>
          if ds \<noteq> [] \<and> list_all isdigit ds \<and> length ds \<le> 4300
          then Inr ((if fst (take_sign (strip s)) then -1 else 1) * int (digits_val ds))
          else Inl ValueError)"

text \<open>
  A Python float is an IEEE double: a finite value, an infinity or a NaN. A finite
  double is modelled by the real number it denotes, so the two zeros of a double
  are one value and the sign of a zero is not kept. Every operation on doubles
  rounds its exact result to the nearest double. That rounding is the parameter
  \<open>rnd\<close> of every function below that computes with floats: it stands for the
  rounding of the machine, nothing is assumed of it, and a theorem that needs a
  property of it says so. A decimal or an integer at or beyond
  \<open>2^1024 - 2^970\<close> has no nearest double: \<open>float(s)\<close> gives an infinity
  there, and the conversion of an integer raises OverflowError.
\<close>

datatype pyfloat = Fin real | PInf | NInf | NaN

definition float_neg :: "pyfloat \<Rightarrow> pyfloat" where
  "float_neg x = (case x of Fin r \<Rightarrow> Fin (- r) | PInf \<Rightarrow> NInf | NInf \<Rightarrow> PInf | NaN \<Rightarrow> NaN)"

text \<open>Truth value of a float: only zero is false.\<close>

definition float_truthy :: "pyfloat \<Rightarrow> bool" where
  "float_truthy x = (case x of Fin r \<Rightarrow> r \<noteq> 0 | _ \<Rightarrow> True)"

text \<open>
  The unsigned decimal grammar of \<open>float\<close>:
  \<open>digits [. [digits]] [exponent]\<close> or \<open>. digits [exponent]\<close>, where the
  exponent is \<open>e\<close> or \<open>E\<close>, an optional sign and at least one digit.
\<close>

definition parse_exponent :: "string \<Rightarrow> int option" where
  "parse_exponent s =
     (case s of
        [] \<Rightarrow> Some 0
      | c # cs \<Rightarrow>
          if c = CHR ''e'' \<or> c = CHR ''E''
          then (let ds = snd (take_sign cs) in
                if ds \<noteq> [] \<and> list_all isdigit ds
                then Some ((if fst (take_sign cs) then -1 else 1) * int (digits_val ds))
                else None)
          else None)"

definition parse_decimal :: "string \<Rightarrow> real option" where
  "parse_decimal s =
     (let ip = takeWhile isdigit s;
          r1 = dropWhile isdigit s;
          has_dot = (r1 \<noteq> [] \<and> hd r1 = CHR ''.'');
          fp = (if has_dot then takeWhile isdigit (tl r1) else []);
          r2 = (if has_dot then dropWhile isdigit (tl r1) else r1)
      in if ip = [] \<and> fp = [] then None
         else (case parse_exponent r2 of
                 None \<Rightarrow> None
               | Some e \<Rightarrow>
                   Some ((real (digits_val ip) + real (digits_val fp) / 10 ^ length fp)
                         * (if e \<ge> 0 then 10 ^ nat e else 1 / 10 ^ nat (- e)))))"

definition float_of_real :: "(real \<Rightarrow> real) \<Rightarrow> real \<Rightarrow> pyfloat" where
  "float_of_real rnd v =
     (if v \<ge> 2 ^ 1024 - 2 ^ 970 then PInf
      else if v \<le> - (2 ^ 1024 - 2 ^ 970) then NInf
      else Fin (rnd v))"

definition py_float :: "(real \<Rightarrow> real) \<Rightarrow> string \<Rightarrow> py_error + pyfloat" where
  "py_float rnd s =
     (case remove_underscores None (strip s) of
        None \<Rightarrow> Inl ValueError
      | Some t \<Rightarrow>
          (let neg = fst (take_sign t); body = snd (take_sign t) in
           if lower body = ''inf'' \<or> lower body = ''infinity''
           then Inr (if neg then NInf else PInf)
           else if lower body = ''nan'' then Inr NaN
           else (case parse_decimal body of
                   None \<Rightarrow> Inl ValueError
                 | Some v \<Rightarrow> Inr (float_of_real rnd (if neg then - v else v)))))"

text \<open>
  \<open>int(x)\<close> of a float truncates towards zero; it raises OverflowError on an
  infinity and ValueError on a NaN.
\<close>

definition int_of_float :: "pyfloat \<Rightarrow> py_error + int" where
  "int_of_float x =
     (case x of
        Fin r \<Rightarrow> Inr (if r \<ge> 0 then \<lfloor>r\<rfloor> else \<lceil>r\<rceil>)
      | NaN \<Rightarrow> Inl ValueError
      | _ \<Rightarrow> Inl OverflowError)"

text \<open>
  The conversion of an integer operand in an arithmetic expression with a float,
  and the product and the quotient of a float and a positive constant.
\<close>

definition float_of_int :: "(real \<Rightarrow> real) \<Rightarrow> int \<Rightarrow> py_error + real" where
  "float_of_int rnd n =
     (if \<bar>real_of_int n\<bar> \<ge> 2 ^ 1024 - 2 ^ 970 then Inl OverflowError
      else Inr (rnd (real_of_int n)))"

definition float_div :: "(real \<Rightarrow> real) \<Rightarrow> pyfloat \<Rightarrow> real \<Rightarrow> pyfloat" where
  "float_div rnd x k = (case x of Fin r \<Rightarrow> Fin (rnd (r / k)) | _ \<Rightarrow> x)"

definition float_mul :: "(real \<Rightarrow> real) \<Rightarrow> pyfloat \<Rightarrow> real \<Rightarrow> pyfloat" where
  "float_mul rnd x k = (case x of Fin r \<Rightarrow> Fin (rnd (r * k)) | _ \<Rightarrow> x)"

subsection \<open>datetime\<close>

text \<open>
  \<open>datetime.time(hour, minute, second)\<close> and \<open>datetime.date(year, month, day)\<close>
  raise ValueError outside their ranges. The decoders never set a microsecond.
\<close>

record pytime =
  hour :: nat
  minute :: nat
  second :: nat
  microsecond :: nat

record pydate =
  year :: nat
  month :: nat
  day :: nat

definition datetime_time :: "int \<Rightarrow> int \<Rightarrow> int \<Rightarrow> py_error + pytime" where
  "datetime_time h m s =
     (if 0 \<le> h \<and> h \<le> 23 \<and> 0 \<le> m \<and> m \<le> 59 \<and> 0 \<le> s \<and> s \<le> 59
      then Inr \<lparr>hour = nat h, minute = nat m, second = nat s, microsecond = 0\<rparr>
      else Inl ValueError)"

definition is_leap :: "int \<Rightarrow> bool" where
  "is_leap y = (y mod 4 = 0 \<and> (y mod 100 \<noteq> 0 \<or> y mod 400 = 0))"

definition days_in_month :: "int \<Rightarrow> int \<Rightarrow> int" where
  "days_in_month y m =
     (if m = 2 then (if is_leap y then 29 else 28)
      else if m = 4 \<or> m = 6 \<or> m = 9 \<or> m = 11 then 30 else 31)"

definition datetime_date :: "int \<Rightarrow> int \<Rightarrow> int \<Rightarrow> py_error + pydate" where
  "datetime_date y m d =
     (if 1 \<le> y \<and> y \<le> 9999 \<and> 1 \<le> m \<and> m \<le> 12 \<and> 1 \<le> d \<and> d \<le> days_in_month y m
      then Inr \<lparr>year = nat y, month = nat m, day = nat d\<rparr>
      else Inl ValueError)"

text \<open>
  The \<open>time\<close> attribute of a position sentence holds a \<open>datetime.time\<close> when the
  sentence is decoded; \<open>get_point\<close> may replace it by the \<open>datetime.datetime\<close>
  that \<open>datetime.datetime.combine(date, time)\<close> returns.
\<close>

datatype timeval = TimeOfDay pytime | DateTime pydate pytime

section \<open>Coordinate validation\<close>

text \<open>
  The comparisons of the validators are exact. The bounds 90, 180 and 0 are
  doubles; \<open>0.0001\<close> is not, and the code compares with the double nearest to
  it. No double lies between the two, so a double is below the one exactly when
  it is below the other, and the model keeps the decimal.
\<close>

definition validate_latitude :: "real \<Rightarrow> bool" where
  "validate_latitude lat = (-90 \<le> lat \<and> lat \<le> 90)"

definition validate_longitude :: "real \<Rightarrow> bool" where
  "validate_longitude lon = (-180 \<le> lon \<and> lon \<le> 180)"

definition validate_coordinates :: "real \<Rightarrow> real \<Rightarrow> bool" where
  "validate_coordinates lat lon = (validate_latitude lat \<and> validate_longitude lon)"

definition detect_gps_errors :: "real \<Rightarrow> real \<Rightarrow> string list" where
  "detect_gps_errors lat lon =
     (if lat = 0 \<and> lon = 0
      then [''Zero coordinates detected (likely GPS startup)'',
            ''Coordinates at null island (0,0) - likely invalid'']
      else if \<bar>lat\<bar> < 0.0001 \<and> \<bar>lon\<bar> < 0.0001
      then [''Coordinates very close to zero (suspicious)'']
      else [])
     @ (if \<bar>lat\<bar> = 90 then [''Latitude at pole - verify if correct''] else [])
     @ (if \<bar>lon\<bar> = 180 then [''Longitude at 180th meridian - verify if correct''] else [])"

definition rejectable_errors :: "string list" where
  "rejectable_errors =
     [''Zero coordinates detected (likely GPS startup)'',
      ''Coordinates very close to zero (suspicious)'',
      ''Coordinates at null island (0,0) - likely invalid'']"

definition should_reject_coordinates :: "real \<Rightarrow> real \<Rightarrow> bool \<Rightarrow> bool" where
  "should_reject_coordinates lat lon strict =
     (if \<not> strict then False
      else list_ex (\<lambda>error. error \<in> set (detect_gps_errors lat lon)) rejectable_errors)"

section \<open>Sentences\<close>

text \<open>
  The base class and its five subclasses. The attributes keep their names, prefixed
  by the class where two classes share one. The \<open>time\<close> attribute of RMC and GGA
  has the type \<open>'t\<close>: \<open>pytime\<close> as decoded, \<open>timeval\<close> in an emitted point.
\<close>

record nmea_sentence =
  talker :: string
  sentence :: "string list"
  checksum :: string
  sentence_type :: string
  is_valid :: bool

record GSVSatellite =
  prn :: "int option"
  elevation :: "int option"
  azimuth :: "int option"
  snr :: "int option"

record gsa = nmea_sentence +
  mode_auto :: string
  mode_fix_type :: "int option"
  sv_ids :: "int list"
  pdop :: "pyfloat option"
  gsa_hdop :: "pyfloat option"
  vdop :: "pyfloat option"

record vtg = nmea_sentence +
  true_track :: "pyfloat option"
  mag_track :: "pyfloat option"
  speed_knots :: "pyfloat option"
  speed_kmh :: "pyfloat option"

record gsv = nmea_sentence +
  num_messages :: int
  msg_num :: int
  sats_in_view :: int
  sat_data :: "GSVSatellite list"

record 't rmc = nmea_sentence +
  rmc_time :: "'t option"
  date :: "pydate option"
  status :: bool
  rmc_latitude :: "real option"
  rmc_longitude :: "real option"
  speed :: "pyfloat option"
  course :: "pyfloat option"
  mag_var :: "pyfloat option"

record 't gga = nmea_sentence +
  gga_time :: "'t option"
  gga_latitude :: "real option"
  gga_longitude :: "real option"
  fix_quality :: "int option"
  num_sats :: "int option"
  gga_hdop :: "pyfloat option"
  altitude :: "pyfloat option"
  geoid_height :: "pyfloat option"
  dgps_update :: "pyfloat option"
  dgps_station :: "int option"

datatype nmea =
    RMC "pytime rmc"
  | GGA "pytime gga"
  | GSA gsa
  | VTG vtg
  | GSV gsv
  | Unknown nmea_sentence

text \<open>\<open>NMEASentence.__init__\<close>: \<open>_validate_checksum\<close> returns True.\<close>

definition NMEASentence_init :: "string \<Rightarrow> string list \<Rightarrow> string \<Rightarrow> string \<Rightarrow> nmea_sentence" where
  "NMEASentence_init tk s ck ty =
     \<lparr>talker = tk, sentence = s, checksum = ck, sentence_type = ty, is_valid = True\<rparr>"

subsection \<open>Field decoding\<close>

text \<open>
  The conditional expressions of the decoders, by shape:
  \<open>float(s[i]) if s[i] else None\<close> indexes without a guard,
  \<open>float(s[i]) if len(s) > i and s[i] else None\<close> with one.
\<close>

definition float_field ::
  "(real \<Rightarrow> real) \<Rightarrow> string list \<Rightarrow> nat \<Rightarrow> py_error + pyfloat option" where
  "float_field rnd s i =
     bind_err (index s i) (\<lambda>f.
       if f \<noteq> [] then bind_err (py_float rnd f) (\<lambda>v. Inr (Some v)) else Inr None)"

definition int_field :: "string list \<Rightarrow> nat \<Rightarrow> py_error + int option" where
  "int_field s i =
     bind_err (index s i) (\<lambda>f.
       if f \<noteq> [] then bind_err (py_int f) (\<lambda>v. Inr (Some v)) else Inr None)"

definition guarded_float_field ::
  "(real \<Rightarrow> real) \<Rightarrow> string list \<Rightarrow> nat \<Rightarrow> py_error + pyfloat option" where
  "guarded_float_field rnd s i =
     (if length s > i \<and> s ! i \<noteq> []
      then bind_err (py_float rnd (s ! i)) (\<lambda>v. Inr (Some v)) else Inr None)"

definition guarded_int_field :: "string list \<Rightarrow> nat \<Rightarrow> py_error + int option" where
  "guarded_int_field s i =
     (if length s > i \<and> s ! i \<noteq> []
      then bind_err (py_int (s ! i)) (\<lambda>v. Inr (Some v)) else Inr None)"

text \<open>
  The time block of RMC and GGA, entered when the field is not empty:
  \<open>try: ... self.time = datetime.time(hour, minute, second)\<close>
  \<open>except (ValueError, IndexError): pass\<close>.
\<close>

definition parse_time :: "string \<Rightarrow> pytime option" where
  "parse_time f =
     (case bind_err (py_int (slice f 0 2)) (\<lambda>h.
           bind_err (py_int (slice f 2 4)) (\<lambda>m.
           bind_err (py_int (slice f 4 6)) (\<lambda>s.
           datetime_time h m s))) of
        Inr t \<Rightarrow> Some t
      | Inl e \<Rightarrow> None)"

text \<open>The date block of RMC: \<open>ddmmyy\<close>, the year taken as \<open>2000 + yy\<close>.\<close>

definition parse_date :: "string \<Rightarrow> pydate option" where
  "parse_date f =
     (case bind_err (py_int (slice f 0 2)) (\<lambda>d.
           bind_err (py_int (slice f 2 4)) (\<lambda>m.
           bind_err (py_int (slice f 4 6)) (\<lambda>y.
           datetime_date (2000 + y) m d))) of
        Inr d \<Rightarrow> Some d
      | Inl e \<Rightarrow> None)"

text \<open>
  The conversion both coordinate blocks share: \<open>lat = float(raw)\<close>,
  \<open>lat_deg = int(lat / 100)\<close>, \<open>lat_min = lat - (lat_deg * 100)\<close>,
  \<open>lat_deg + (lat_min / 60)\<close>, negated when the hemisphere field is the given
  letter (\<open>'S'\<close> for a latitude, \<open>'W'\<close> for a longitude). The product
  \<open>lat_deg * 100\<close> is an integer; it and \<open>lat_deg\<close> are converted to floats
  by the subtraction and the addition. \<open>int\<close> has raised on an infinity or a
  NaN before the last branch is reached.
\<close>

definition convert_coordinate ::
  "(real \<Rightarrow> real) \<Rightarrow> string \<Rightarrow> string \<Rightarrow> string \<Rightarrow> py_error + real" where
  "convert_coordinate rnd raw hemisphere negative =
     bind_err (py_float rnd raw) (\<lambda>lat.
     bind_err (int_of_float (float_div rnd lat 100)) (\<lambda>lat_deg.
       (case lat of
          Fin r \<Rightarrow>
            bind_err (float_of_int rnd (lat_deg * 100)) (\<lambda>hundreds.
            bind_err (float_of_int rnd lat_deg) (\<lambda>deg.
              (let lat_min = rnd (r - hundreds);
                   v = rnd (deg + rnd (lat_min / 60))
               in Inr (if hemisphere = negative then - v else v))))
        | _ \<Rightarrow> Inl ValueError)))"

subsection \<open>Logging\<close>

text \<open>
  A call of the \<open>logging\<close> module is recorded as its level and the text of its
  message up to the first interpolated value. A function that logs returns the
  records it wrote, in order, beside its result or exception: what was logged
  before an exception stays logged.
\<close>

datatype level = DEBUG | INFO | WARNING | ERROR

type_synonym log_event = "level \<times> string"

type_synonym 'a logged = "log_event list \<times> (py_error + 'a)"

definition returns :: "'a \<Rightarrow> 'a logged" where
  "returns x = ([], Inr x)"

definition quiet :: "py_error + 'a \<Rightarrow> 'a logged" where
  "quiet r = ([], r)"

definition logging_warning :: "string \<Rightarrow> unit logged" where
  "logging_warning msg = ([(WARNING, msg)], Inr ())"

definition bind_log :: "'a logged \<Rightarrow> ('a \<Rightarrow> 'b logged) \<Rightarrow> 'b logged" where
  "bind_log m f =
     (case m of
        (l1, Inl e) \<Rightarrow> (l1, Inl e)
      | (l1, Inr x) \<Rightarrow> (case f x of (l2, r) \<Rightarrow> (l1 @ l2, r)))"

subsection \<open>The coordinate blocks of RMC and GGA\<close>

text \<open>
  The latitude block (\<open>cls\<close> is \<open>RMC\<close> or \<open>GGA\<close>, for the message): the
  converted latitude, or None with a warning when it fails \<open>validate_latitude\<close>.
\<close>

definition latitude_block ::
  "(real \<Rightarrow> real) \<Rightarrow> string \<Rightarrow> string \<Rightarrow> string \<Rightarrow> real option logged" where
  "latitude_block rnd cls raw hemisphere =
     bind_log (quiet (convert_coordinate rnd raw hemisphere ''S'')) (\<lambda>latitude.
       if \<not> validate_latitude latitude
       then bind_log (logging_warning (''Invalid latitude in '' @ cls @ '': ''))
              (\<lambda>_. returns None)
       else returns (Some latitude))"

text \<open>
  The longitude block, which holds the anomaly warnings and the strict-mode
  rejection: it returns the latitude and the longitude the sentence keeps.
\<close>

definition longitude_block ::
  "(real \<Rightarrow> real) \<Rightarrow> string \<Rightarrow> string \<Rightarrow> string \<Rightarrow> real option \<Rightarrow> bool
     \<Rightarrow> (real option \<times> real option) logged" where
  "longitude_block rnd cls raw hemisphere latitude strict_validation =
     bind_log (quiet (convert_coordinate rnd raw hemisphere ''W'')) (\<lambda>longitude.
       if \<not> validate_longitude longitude
       then bind_log (logging_warning (''Invalid longitude in '' @ cls @ '': ''))
              (\<lambda>_. returns (latitude, None))
       else (case latitude of
               None \<Rightarrow> returns (latitude, Some longitude)
             | Some lat \<Rightarrow>
                 (map (\<lambda>error. (WARNING, cls @ '' coordinate issue: '' @ error))
                      (detect_gps_errors lat longitude)
                  @ (if should_reject_coordinates lat longitude strict_validation
                     then [(WARNING, ''Rejecting '' @ cls @ '' coordinates in strict mode: lat='')]
                     else []),
                  Inr (if should_reject_coordinates lat longitude strict_validation
                       then (None, None)
                       else (latitude, Some longitude)))))"

subsection \<open>The typed decoders\<close>

text \<open>\<open>GSA.__init__\<close>. The loop over \<open>range(2, 14)\<close> is \<open>collect_sv_ids\<close>.\<close>

fun collect_sv_ids :: "string list \<Rightarrow> nat list \<Rightarrow> py_error + int list" where
  "collect_sv_ids s [] = Inr []"
| "collect_sv_ids s (i # rest) =
     (if i < length s \<and> s ! i \<noteq> []
      then bind_err (py_int (s ! i)) (\<lambda>v.
             bind_err (collect_sv_ids s rest) (\<lambda>vs. Inr (v # vs)))
      else collect_sv_ids s rest)"

definition GSA_init ::
  "(real \<Rightarrow> real) \<Rightarrow> string \<Rightarrow> string list \<Rightarrow> string \<Rightarrow> string \<Rightarrow> py_error + gsa" where
  "GSA_init rnd tk s ck ty =
     bind_err (index s 0) (\<lambda>auto_mode.
     bind_err (int_field s 1) (\<lambda>fix_type.
     bind_err (collect_sv_ids s [2..<14]) (\<lambda>ids.
     bind_err (guarded_float_field rnd s 14) (\<lambda>p.
     bind_err (guarded_float_field rnd s 15) (\<lambda>h.
     bind_err (guarded_float_field rnd s 16) (\<lambda>v.
       Inr \<lparr>talker = tk, sentence = s, checksum = ck, sentence_type = ty, is_valid = True,
            mode_auto = auto_mode, mode_fix_type = fix_type, sv_ids = ids,
            pdop = p, gsa_hdop = h, vdop = v\<rparr>))))))"

text \<open>\<open>VTG.__init__\<close>\<close>

definition VTG_init ::
  "(real \<Rightarrow> real) \<Rightarrow> string \<Rightarrow> string list \<Rightarrow> string \<Rightarrow> string \<Rightarrow> py_error + vtg" where
  "VTG_init rnd tk s ck ty =
     bind_err (float_field rnd s 0) (\<lambda>tt.
     bind_err (float_field rnd s 2) (\<lambda>mt.
     bind_err (float_field rnd s 4) (\<lambda>kn.
     bind_err (float_field rnd s 6) (\<lambda>kmh.
       Inr \<lparr>talker = tk, sentence = s, checksum = ck, sentence_type = ty, is_valid = True,
            true_track = tt, mag_track = mt, speed_knots = kn, speed_kmh = kmh\<rparr>))))"

text \<open>
  \<open>GSV.__init__\<close>. The three counts are converted without a test for an empty
  field. The loop over \<open>range(0, 4)\<close> is \<open>collect_sats\<close>.
\<close>

definition plain_int_field :: "string list \<Rightarrow> nat \<Rightarrow> py_error + int" where
  "plain_int_field s i = bind_err (index s i) py_int"

definition opt_int :: "string \<Rightarrow> py_error + int option" where
  "opt_int f = (if f \<noteq> [] then bind_err (py_int f) (\<lambda>v. Inr (Some v)) else Inr None)"

fun collect_sats :: "string list \<Rightarrow> nat list \<Rightarrow> py_error + GSVSatellite list" where
  "collect_sats s [] = Inr []"
| "collect_sats s (i # rest) =
     (let base_idx = 3 + i * 4 in
      if base_idx + 3 < length s \<and> s ! base_idx \<noteq> []
      then bind_err (py_int (s ! base_idx)) (\<lambda>p.
           bind_err (opt_int (s ! (base_idx + 1))) (\<lambda>e.
           bind_err (opt_int (s ! (base_idx + 2))) (\<lambda>a.
           bind_err (opt_int (s ! (base_idx + 3))) (\<lambda>r.
           bind_err (collect_sats s rest) (\<lambda>sats.
             Inr (\<lparr>prn = Some p, elevation = e, azimuth = a, snr = r\<rparr> # sats))))))
      else collect_sats s rest)"

definition GSV_init :: "string \<Rightarrow> string list \<Rightarrow> string \<Rightarrow> string \<Rightarrow> py_error + gsv" where
  "GSV_init tk s ck ty =
     bind_err (plain_int_field s 0) (\<lambda>n.
     bind_err (plain_int_field s 1) (\<lambda>m.
     bind_err (plain_int_field s 2) (\<lambda>v.
     bind_err (collect_sats s [0..<4]) (\<lambda>sats.
       Inr \<lparr>talker = tk, sentence = s, checksum = ck, sentence_type = ty, is_valid = True,
            num_messages = n, msg_num = m, sats_in_view = v, sat_data = sats\<rparr>))))"

text \<open>
  \<open>RMC.__init__\<close>. Only \<open>sentence[0]\<close> is read without a length test.
\<close>

definition rmc_mag_var :: "(real \<Rightarrow> real) \<Rightarrow> string list \<Rightarrow> py_error + pyfloat option" where
  "rmc_mag_var rnd s =
     (if length s > 9 \<and> s ! 9 \<noteq> []
      then bind_err (py_float rnd (s ! 9)) (\<lambda>v.
             Inr (Some (if length s > 10 \<and> s ! 10 = ''W'' then float_neg v else v)))
      else Inr None)"

definition RMC_init ::
  "(real \<Rightarrow> real) \<Rightarrow> string \<Rightarrow> string list \<Rightarrow> string \<Rightarrow> string \<Rightarrow> bool
     \<Rightarrow> pytime rmc logged" where
  "RMC_init rnd tk s ck ty strict_validation =
     bind_log (quiet (index s 0)) (\<lambda>f0.
     bind_log (if length s > 3 \<and> s ! 2 \<noteq> [] \<and> s ! 3 \<noteq> []
               then latitude_block rnd ''RMC'' (s ! 2) (s ! 3) else returns None) (\<lambda>lat.
     bind_log (if length s > 5 \<and> s ! 4 \<noteq> [] \<and> s ! 5 \<noteq> []
               then longitude_block rnd ''RMC'' (s ! 4) (s ! 5) lat strict_validation
               else returns (lat, None)) (\<lambda>pair.
     bind_log (quiet (guarded_float_field rnd s 6)) (\<lambda>sp.
     bind_log (quiet (guarded_float_field rnd s 7)) (\<lambda>co.
     bind_log (quiet (rmc_mag_var rnd s)) (\<lambda>mv.
       returns
         \<lparr>talker = tk, sentence = s, checksum = ck, sentence_type = ty, is_valid = True,
          rmc_time = (if f0 \<noteq> [] then parse_time f0 else None),
          date = (if length s > 8 \<and> s ! 8 \<noteq> [] then parse_date (s ! 8) else None),
          status = (if length s > 1 then s ! 1 = ''A'' else False),
          rmc_latitude = fst pair, rmc_longitude = snd pair,
          speed = sp, course = co, mag_var = mv\<rparr>))))))"

text \<open>
  \<open>GGA.__init__\<close>. Fields 0 to 8 are read without a length test;
  \<open>sentence[i] and sentence[j]\<close> reads the second field only when the first is
  not empty.
\<close>

definition both_present :: "string list \<Rightarrow> nat \<Rightarrow> nat \<Rightarrow> py_error + bool" where
  "both_present s i j =
     bind_err (index s i) (\<lambda>a.
       if a = [] then Inr False else bind_err (index s j) (\<lambda>b. Inr (b \<noteq> [])))"

definition GGA_init ::
  "(real \<Rightarrow> real) \<Rightarrow> string \<Rightarrow> string list \<Rightarrow> string \<Rightarrow> string \<Rightarrow> bool
     \<Rightarrow> pytime gga logged" where
  "GGA_init rnd tk s ck ty strict_validation =
     bind_log (quiet (index s 0)) (\<lambda>f0.
     bind_log (quiet (both_present s 1 2)) (\<lambda>has_lat.
     bind_log (if has_lat then latitude_block rnd ''GGA'' (s ! 1) (s ! 2) else returns None) (\<lambda>lat.
     bind_log (quiet (both_present s 3 4)) (\<lambda>has_lon.
     bind_log (if has_lon then longitude_block rnd ''GGA'' (s ! 3) (s ! 4) lat strict_validation
               else returns (lat, None)) (\<lambda>pair.
     bind_log (quiet (int_field s 5)) (\<lambda>fq.
     bind_log (quiet (int_field s 6)) (\<lambda>ns.
     bind_log (quiet (float_field rnd s 7)) (\<lambda>hd.
     bind_log (quiet (float_field rnd s 8)) (\<lambda>alt.
     bind_log (quiet (guarded_float_field rnd s 10)) (\<lambda>gh.
     bind_log (quiet (guarded_float_field rnd s 12)) (\<lambda>du.
     bind_log (quiet (guarded_int_field s 13)) (\<lambda>ds.
       returns
         \<lparr>talker = tk, sentence = s, checksum = ck, sentence_type = ty, is_valid = True,
          gga_time = (if f0 \<noteq> [] then parse_time f0 else None),
          gga_latitude = fst pair, gga_longitude = snd pair,
          fix_quality = fq, num_sats = ns, gga_hdop = hd, altitude = alt,
          geoid_height = gh, dgps_update = du, dgps_station = ds\<rparr>))))))))))))"

section \<open>The sentence parser\<close>

text \<open>
  \<open>NMEASentence.parse\<close>, in the order of its statements. \<open>split_checksum\<close> is
  the null-byte removal, the strip and \<open>sentence, checksum = line.split('*')\<close>,
  which raises ValueError unless the line holds exactly one \<open>*\<close>; the two
  local variables are \<open>body\<close> and \<open>cks\<close> here.
\<close>

definition split_checksum :: "string \<Rightarrow> py_error + (string \<times> string)" where
  "split_checksum line =
     (let l = strip (remove_nulls line) in
      if CHR ''*'' \<in> set l
      then (case split (CHR ''*'') l of
              [body, cks] \<Rightarrow> Inr (body, cks)
            | _ \<Rightarrow> Inl ValueError)
      else Inl ValueError)"

text \<open>The loop \<open>for c in sentence[1:]: calc_cksum ^= ord(c)\<close>.\<close>

definition calc_cksum :: "string \<Rightarrow> int" where
  "calc_cksum body = foldl (\<lambda>acc c. acc XOR of_char c) 0 (drop 1 body)"

text \<open>
  \<open>f"{n:02X}"\<close> of a number that is not negative: upper-case hexadecimal,
  padded with zeros to two digits.
\<close>

definition hex_char :: "nat \<Rightarrow> char" where
  "hex_char d = ''0123456789ABCDEF'' ! d"

fun hex_digits :: "nat \<Rightarrow> string" where
  "hex_digits n = (if n < 16 then [hex_char n] else hex_digits (n div 16) @ [hex_char (n mod 16)])"

definition format_02X :: "nat \<Rightarrow> string" where
  "format_02X n = replicate (2 - length (hex_digits n)) (CHR ''0'') @ hex_digits n"

definition verify_checksum :: "string \<Rightarrow> (string \<times> string) logged" where
  "verify_checksum line =
     bind_log (quiet (split_checksum line)) (\<lambda>(body, cks).
       if format_02X (nat (calc_cksum body)) \<noteq> upper (strip cks)
       then ([(DEBUG, ''Raw NMEA sentence with failed checksum: ''),
              (DEBUG, ''Sentence part (before *): ''),
              (DEBUG, ''Checksum part (after *): ''),
              (DEBUG, ''Calculated checksum: '')], Inl ChecksumError)
       else returns (body, cks))"

text \<open>
  The rest of the \<open>try\<close> block: the split on commas, the sentence id and the
  dispatch on \<open>SENTENCE_TYPES\<close>. Only RMC and GGA receive the strictness flag.
\<close>

definition dispatch :: "(real \<Rightarrow> real) \<Rightarrow> string \<Rightarrow> string \<Rightarrow> bool \<Rightarrow> nmea logged" where
  "dispatch rnd body cks strict_validation =
     (let sentence_parts = split (CHR '','') (drop 1 body);
          sentence_id = hd sentence_parts;
          tk = slice sentence_id 0 2;
          ty = drop 2 sentence_id;
          sentence_data = tl sentence_parts
      in if length sentence_id < 5 then quiet (Inl ValueError)
         else if ty = ''RMC''
         then bind_log (RMC_init rnd tk sentence_data (strip cks) ty strict_validation)
                (\<lambda>r. returns (RMC r))
         else if ty = ''GGA''
         then bind_log (GGA_init rnd tk sentence_data (strip cks) ty strict_validation)
                (\<lambda>r. returns (GGA r))
         else if ty = ''GSA''
         then bind_log (quiet (GSA_init rnd tk sentence_data (strip cks) ty))
                (\<lambda>r. returns (GSA r))
         else if ty = ''GSV''
         then bind_log (quiet (GSV_init tk sentence_data (strip cks) ty))
                (\<lambda>r. returns (GSV r))
         else if ty = ''VTG''
         then bind_log (quiet (VTG_init rnd tk sentence_data (strip cks) ty))
                (\<lambda>r. returns (VTG r))
         else returns (Unknown (NMEASentence_init tk sentence_data (strip cks) ty)))"

text \<open>
  \<open>parse\<close>: a ChecksumError is raised again as it is, every other exception of
  the \<open>try\<close> block as a ValueError.
\<close>

definition parse :: "(real \<Rightarrow> real) \<Rightarrow> string \<Rightarrow> bool \<Rightarrow> nmea logged" where
  "parse rnd line strict_validation =
     (if \<not> startswith line ''$'' then quiet (Inl ValueError)
      else (case bind_log (verify_checksum line) (\<lambda>(body, cks).
                   dispatch rnd body cks strict_validation) of
              (lg, Inl ChecksumError) \<Rightarrow> (lg, Inl ChecksumError)
            | (lg, Inl e) \<Rightarrow> (lg, Inl ValueError)
            | (lg, Inr n) \<Rightarrow> (lg, Inr n)))"

text \<open>
  \<open>parse_nmea_stream\<close> over the lines of one file (each a byte string): the
  sentences it yields, and what it and the parser log. \<open>decode_ascii\<close> is
  \<open>line.decode('ascii', errors='ignore')\<close>.
\<close>

definition decode_ascii :: "string \<Rightarrow> string" where
  "decode_ascii line = filter (\<lambda>c. (of_char c :: nat) < 128) line"

definition nmea_is_valid :: "nmea \<Rightarrow> bool" where
  "nmea_is_valid n =
     (case n of RMC r \<Rightarrow> is_valid r | GGA r \<Rightarrow> is_valid r | GSA r \<Rightarrow> is_valid r
      | VTG r \<Rightarrow> is_valid r | GSV r \<Rightarrow> is_valid r | Unknown r \<Rightarrow> is_valid r)"

fun parse_nmea_stream ::
  "(real \<Rightarrow> real) \<Rightarrow> string list \<Rightarrow> bool \<Rightarrow> log_event list \<times> nmea list" where
  "parse_nmea_stream rnd [] strict_validation = ([], [])"
| "parse_nmea_stream rnd (line # rest) strict_validation =
     (let (lg_rest, out_rest) = parse_nmea_stream rnd rest strict_validation in
      if \<not> startswith line ''$'' then (lg_rest, out_rest)
      else (let line_str = remove_nulls (strip (decode_ascii line)) in
            if strip line_str = [] then (lg_rest, out_rest)
            else (case parse rnd line_str strict_validation of
                    (lg, Inr n) \<Rightarrow>
                      if \<not> nmea_is_valid n then (lg @ lg_rest, out_rest)
                      else (lg @ lg_rest, n # out_rest)
                  | (lg, Inl e) \<Rightarrow>
                      (lg @ [(WARNING, ''Error parsing line in '')] @ lg_rest, out_rest))))"

section \<open>The point grouping state machine\<close>

text \<open>
  The dictionary \<open>current_data\<close> of \<open>group_nmea_points\<close>, one field per key, and
  the dictionary a yield hands out (\<open>PointData\<close>).
\<close>

record current_data =
  cur_rmc :: "pytime rmc option"
  cur_gga :: "pytime gga option"
  cur_gsa :: "gsa option"
  cur_vtg :: "vtg option"
  cur_gsv :: "gsv option"
  last_time :: "pytime option"
  current_date :: "pydate option"

record point =
  pt_rmc :: "timeval rmc option"
  pt_gga :: "timeval gga option"
  pt_gsa :: "gsa option"
  pt_vtg :: "vtg option"
  pt_gsv :: "gsv option"

definition initial_data :: current_data where
  "initial_data =
     \<lparr>cur_rmc = None, cur_gga = None, cur_gsa = None, cur_vtg = None, cur_gsv = None,
      last_time = None, current_date = None\<rparr>"

text \<open>
  \<open>get_point\<close> assigns to the \<open>time\<close> attribute of the pending sentences. With
  a date \<open>d\<close> the new value is \<open>datetime.datetime.combine(d, time)\<close>; without
  one the attribute keeps its \<open>datetime.time\<close>.
\<close>

definition stamp :: "pydate option \<Rightarrow> pytime \<Rightarrow> timeval" where
  "stamp d t = (case d of None \<Rightarrow> TimeOfDay t | Some dd \<Rightarrow> DateTime dd t)"

definition rmc_set_time :: "pydate option \<Rightarrow> pytime rmc \<Rightarrow> timeval rmc" where
  "rmc_set_time d r =
     \<lparr>talker = talker r, sentence = sentence r, checksum = checksum r,
      sentence_type = sentence_type r, is_valid = is_valid r,
      rmc_time = map_option (stamp d) (rmc_time r), date = date r, status = status r,
      rmc_latitude = rmc_latitude r, rmc_longitude = rmc_longitude r,
      speed = speed r, course = course r, mag_var = mag_var r\<rparr>"

definition gga_set_time :: "pydate option \<Rightarrow> pytime gga \<Rightarrow> timeval gga" where
  "gga_set_time d g =
     \<lparr>talker = talker g, sentence = sentence g, checksum = checksum g,
      sentence_type = sentence_type g, is_valid = is_valid g,
      gga_time = map_option (stamp d) (gga_time g),
      gga_latitude = gga_latitude g, gga_longitude = gga_longitude g,
      fix_quality = fix_quality g, num_sats = num_sats g, gga_hdop = gga_hdop g,
      altitude = altitude g, geoid_height = geoid_height g,
      dgps_update = dgps_update g, dgps_station = dgps_station g\<rparr>"

definition get_point :: "current_data \<Rightarrow> point" where
  "get_point cur =
     (let rmc_stamp =
            (case (cur_rmc cur, cur_gga cur) of
               (Some r, Some g) \<Rightarrow> (if rmc_time r \<noteq> None \<and> date r \<noteq> None then date r else None)
             | _ \<Rightarrow> None);
          gga_stamp =
            (case (cur_rmc cur, cur_gga cur) of
               (Some r, Some g) \<Rightarrow> (if rmc_time r \<noteq> None \<and> date r \<noteq> None then date r else None)
             | (None, Some g) \<Rightarrow> current_date cur
             | _ \<Rightarrow> None)
      in \<lparr>pt_rmc = map_option (rmc_set_time rmc_stamp) (cur_rmc cur),
          pt_gga = map_option (gga_set_time gga_stamp) (cur_gga cur),
          pt_gsa = cur_gsa cur, pt_vtg = cur_vtg cur, pt_gsv = cur_gsv cur\<rparr>)"

text \<open>The four assignments that follow a yield inside the loop.\<close>

definition clear_point :: "current_data \<Rightarrow> current_data" where
  "clear_point cur = cur\<lparr>cur_rmc := None, cur_gga := None, cur_vtg := None, last_time := None\<rparr>"

text \<open>\<open>msg_time\<close>: the time of an RMC or GGA sentence, None for every other sentence.\<close>

definition msg_time_of :: "nmea \<Rightarrow> pytime option" where
  "msg_time_of s = (case s of RMC r \<Rightarrow> rmc_time r | GGA g \<Rightarrow> gga_time g | _ \<Rightarrow> None)"

text \<open>
  \<open>hour * 3600 + minute * 60 + second + microsecond/1000000\<close>: the quotient is
  a float, the integer sum is converted to a float and added to it. The fields of
  a \<open>datetime.time\<close> are bounded, so the conversion cannot overflow.
\<close>

definition secs :: "(real \<Rightarrow> real) \<Rightarrow> pytime \<Rightarrow> real" where
  "secs rnd t =
     rnd (rnd (real (hour t * 3600 + minute t * 60 + second t))
          + rnd (real (microsecond t) / 1000000))"

text \<open>
  The first part of the loop body: the test of the time window, the yield and the
  clearing. The result is what is yielded and the dictionary afterwards.
\<close>

definition window_flush ::
  "(real \<Rightarrow> real) \<Rightarrow> real \<Rightarrow> current_data \<Rightarrow> nmea \<Rightarrow> point list \<times> current_data" where
  "window_flush rnd time_window cur s =
     (case (msg_time_of s, last_time cur) of
        (Some mt, Some lt) \<Rightarrow>
          if \<bar>rnd (secs rnd mt - secs rnd lt)\<bar> > time_window
          then ((if cur_rmc cur \<noteq> None \<or> cur_gga cur \<noteq> None then [get_point cur] else []),
                clear_point cur)
          else ([], cur)
      | _ \<Rightarrow> ([], cur))"

text \<open>The second part of the loop body: the sentence is stored by its type.\<close>

definition store :: "current_data \<Rightarrow> nmea \<Rightarrow> point list \<times> current_data" where
  "store cur s =
     (case s of
        RMC r \<Rightarrow>
          (let full = (cur_rmc cur \<noteq> None \<and> cur_gga cur \<noteq> None);
               c1 = (if full then clear_point cur else cur);
               c2 = c1\<lparr>cur_rmc := Some r, last_time := rmc_time r\<rparr>
           in (if full then [get_point cur] else [],
               if rmc_time r \<noteq> None \<and> date r \<noteq> None then c2\<lparr>current_date := date r\<rparr> else c2))
      | GGA g \<Rightarrow>
          (let full = (cur_gga cur \<noteq> None \<and> cur_rmc cur \<noteq> None);
               c1 = (if full then clear_point cur else cur)
           in (if full then [get_point cur] else [],
               c1\<lparr>cur_gga := Some g, last_time := gga_time g\<rparr>))
      | GSA a \<Rightarrow> ([], cur\<lparr>cur_gsa := Some a\<rparr>)
      | VTG v \<Rightarrow> ([], cur\<lparr>cur_vtg := Some v\<rparr>)
      | GSV v \<Rightarrow> ([], cur\<lparr>cur_gsv := Some v\<rparr>)
      | Unknown u \<Rightarrow> ([], cur))"

definition step ::
  "(real \<Rightarrow> real) \<Rightarrow> real \<Rightarrow> current_data \<Rightarrow> nmea \<Rightarrow> point list \<times> current_data" where
  "step rnd time_window cur s =
     (let (out1, c1) = window_flush rnd time_window cur s;
          (out2, c2) = store c1 s
      in (out1 @ out2, c2))"

text \<open>The loop over the sentences, and the yield after it.\<close>

fun run :: "(real \<Rightarrow> real) \<Rightarrow> real \<Rightarrow> current_data \<Rightarrow> nmea list \<Rightarrow> point list" where
  "run rnd time_window cur [] =
     (if cur_rmc cur \<noteq> None \<or> cur_gga cur \<noteq> None then [get_point cur] else [])"
| "run rnd time_window cur (s # rest) =
     (case step rnd time_window cur s of (out, c) \<Rightarrow> out @ run rnd time_window c rest)"

definition group_nmea_points :: "(real \<Rightarrow> real) \<Rightarrow> nmea list \<Rightarrow> real \<Rightarrow> point list" where
  "group_nmea_points rnd sentences time_window = run rnd time_window initial_data sentences"

section \<open>The track serializer\<close>

subsection \<open>Formatting\<close>

fun dec_digits :: "nat \<Rightarrow> string" where
  "dec_digits n =
     (if n < 10 then [''0123456789'' ! n]
      else dec_digits (n div 10) @ [''0123456789'' ! (n mod 10)])"

text \<open>\<open>str(n)\<close> of an integer, and a number padded with zeros to a width.\<close>

definition str_int :: "int \<Rightarrow> string" where
  "str_int i = (if i < 0 then ''-'' @ dec_digits (nat (- i)) else dec_digits (nat i))"

definition zero_pad :: "nat \<Rightarrow> nat \<Rightarrow> string" where
  "zero_pad w n = replicate (w - length (dec_digits n)) (CHR ''0'') @ dec_digits n"

text \<open>
  \<open>f"{x:.nf}"\<close>: the exact value of the double rounded to \<open>n\<close> decimals,
  halves to the even neighbour, with the sign of the value. The code writes a
  negative zero with a minus sign; the model, which has one zero, writes none.
\<close>

definition round_half_even :: "real \<Rightarrow> int" where
  "round_half_even r =
     (if r - real_of_int \<lfloor>r\<rfloor> < 1 / 2 then \<lfloor>r\<rfloor>
      else if r - real_of_int \<lfloor>r\<rfloor> > 1 / 2 then \<lfloor>r\<rfloor> + 1
      else if even \<lfloor>r\<rfloor> then \<lfloor>r\<rfloor> else \<lfloor>r\<rfloor> + 1)"

definition format_f :: "nat \<Rightarrow> pyfloat \<Rightarrow> string" where
  "format_f n x =
     (case x of
        PInf \<Rightarrow> ''inf''
      | NInf \<Rightarrow> ''-inf''
      | NaN \<Rightarrow> ''nan''
      | Fin r \<Rightarrow>
          (let ds = zero_pad (n + 1) (nat (round_half_even (\<bar>r\<bar> * 10 ^ n)))
           in (if r < 0 then ''-'' else [])
              @ take (length ds - n) ds
              @ (if n = 0 then [] else ''.'' @ drop (length ds - n) ds)))"

text \<open>
  \<open>strftime("%Y-%m-%dT%H:%M:%S.%fZ")\<close>. A \<open>datetime.time\<close> has no date:
  its \<open>strftime\<close> formats the date fields from 1900-01-01.
\<close>

definition strftime :: "timeval \<Rightarrow> string" where
  "strftime tv =
     (let d = (case tv of TimeOfDay t \<Rightarrow> \<lparr>year = 1900, month = 1, day = 1\<rparr> | DateTime dd t \<Rightarrow> dd);
          t = (case tv of TimeOfDay t \<Rightarrow> t | DateTime dd t \<Rightarrow> t)
      in zero_pad 4 (year d) @ ''-'' @ zero_pad 2 (month d) @ ''-'' @ zero_pad 2 (day d)
         @ ''T'' @ zero_pad 2 (hour t) @ '':'' @ zero_pad 2 (minute t) @ '':''
         @ zero_pad 2 (second t) @ ''.'' @ zero_pad 6 (microsecond t) @ ''Z'')"

subsection \<open>Truth values\<close>

text \<open>\<open>if x.attr:\<close> on an optional number: false for None and for zero.\<close>

definition truthy_float :: "pyfloat option \<Rightarrow> bool" where
  "truthy_float x = (case x of None \<Rightarrow> False | Some v \<Rightarrow> float_truthy v)"

definition truthy_int :: "int option \<Rightarrow> bool" where
  "truthy_int x = (case x of None \<Rightarrow> False | Some v \<Rightarrow> v \<noteq> 0)"

text \<open>\<open>obj and obj.attr\<close> for an optional sentence: the attribute, None without the sentence.\<close>

definition attr :: "'a option \<Rightarrow> ('a \<Rightarrow> 'b option) \<Rightarrow> 'b option" where
  "attr obj sel = (case obj of None \<Rightarrow> None | Some x \<Rightarrow> sel x)"

subsection \<open>The writer\<close>

text \<open>
  Every function below gives the arguments of its calls of \<open>write_line\<close>, in
  order. \<open>write_line\<close> itself appends to the text of the open file.
\<close>

definition write_rmc_extensions :: "timeval rmc \<Rightarrow> string list" where
  "write_rmc_extensions r =
     (if truthy_float (mag_var r)
      then [''          <nmea:magvar>'' @ format_f 2 (the (mag_var r)) @ ''</nmea:magvar>'']
      else [])"

definition write_gga_extensions :: "timeval gga \<Rightarrow> string list" where
  "write_gga_extensions g =
     (if truthy_int (fix_quality g)
      then [''          <nmea:fix_quality>'' @ str_int (the (fix_quality g)) @ ''</nmea:fix_quality>'']
      else [])
     @ (if truthy_float (altitude g) \<and> truthy_float (geoid_height g)
        then [''          <nmea:geoid_height>'' @ format_f 3 (the (geoid_height g))
              @ ''</nmea:geoid_height>'']
        else [])
     @ (if truthy_float (dgps_update g)
        then [''          <nmea:dgps_age>'' @ format_f 1 (the (dgps_update g)) @ ''</nmea:dgps_age>'']
        else [])
     @ (if truthy_int (dgps_station g)
        then [''          <nmea:dgps_station>'' @ str_int (the (dgps_station g))
              @ ''</nmea:dgps_station>'']
        else [])"

text \<open>\<open>','.join(map(str, ids))\<close>\<close>

fun join_ints :: "int list \<Rightarrow> string" where
  "join_ints [] = []"
| "join_ints [i] = str_int i"
| "join_ints (i # rest) = str_int i @ '','' @ join_ints rest"

definition write_gsa_extensions :: "gsa \<Rightarrow> string list" where
  "write_gsa_extensions a =
     (if truthy_int (mode_fix_type a)
      then [''          <nmea:fix_type>'' @ str_int (the (mode_fix_type a)) @ ''</nmea:fix_type>'']
      else [])
     @ (if truthy_float (pdop a)
        then [''          <nmea:pdop>'' @ format_f 2 (the (pdop a)) @ ''</nmea:pdop>'']
        else [])
     @ (if truthy_float (vdop a)
        then [''          <nmea:vdop>'' @ format_f 2 (the (vdop a)) @ ''</nmea:vdop>'']
        else [])
     @ (if sv_ids a \<noteq> []
        then [''          <nmea:active_sats>'' @ join_ints (sv_ids a) @ ''</nmea:active_sats>'']
        else [])"

definition write_vtg_extensions :: "vtg \<Rightarrow> string list" where
  "write_vtg_extensions v =
     (if truthy_float (mag_track v)
      then [''          <nmea:mag_track>'' @ format_f 2 (the (mag_track v)) @ ''</nmea:mag_track>'']
      else [])
     @ (if truthy_float (speed_knots v)
        then [''          <nmea:speed_knots>'' @ format_f 3 (the (speed_knots v))
              @ ''</nmea:speed_knots>'']
        else [])"

text \<open>\<open>f"{sat.prn}"\<close> of an optional integer.\<close>

definition str_opt_int :: "int option \<Rightarrow> string" where
  "str_opt_int x = (case x of None \<Rightarrow> ''None'' | Some i \<Rightarrow> str_int i)"

definition write_sat :: "GSVSatellite \<Rightarrow> string list" where
  "write_sat sat =
     [''            <nmea:sat>'',
      ''              <nmea:prn>'' @ str_opt_int (prn sat) @ ''</nmea:prn>'']
     @ (case elevation sat of None \<Rightarrow> []
        | Some e \<Rightarrow> [''              <nmea:elevation>'' @ str_int e @ ''</nmea:elevation>''])
     @ (case azimuth sat of None \<Rightarrow> []
        | Some a \<Rightarrow> [''              <nmea:azimuth>'' @ str_int a @ ''</nmea:azimuth>''])
     @ (case snr sat of None \<Rightarrow> []
        | Some r \<Rightarrow> [''              <nmea:snr>'' @ str_int r @ ''</nmea:snr>''])
     @ [''            </nmea:sat>'']"

definition write_gsv_extensions :: "gsv \<Rightarrow> string list" where
  "write_gsv_extensions v =
     (if sat_data v \<noteq> []
      then [''          <nmea:satellites>'']
           @ concat (map write_sat (take 4 (sat_data v)))
           @ [''          </nmea:satellites>'']
      else [])"

definition opt_lines :: "'a option \<Rightarrow> ('a \<Rightarrow> string list) \<Rightarrow> string list" where
  "opt_lines obj w = (case obj of None \<Rightarrow> [] | Some x \<Rightarrow> w x)"

text \<open>
  \<open>speed_ms = rmc.speed * 0.514444\<close> and \<open>speed_ms = vtg.speed_kmh / 3.6\<close>:
  the two constants are the doubles nearest to the decimals.
\<close>

definition write_extensions :: "(real \<Rightarrow> real) \<Rightarrow> point \<Rightarrow> string list" where
  "write_extensions rnd p =
     (let rmc_speed = attr (pt_rmc p) speed;
          rmc_course = attr (pt_rmc p) course;
          vtg_true_track = attr (pt_vtg p) true_track;
          vtg_speed_kmh = attr (pt_vtg p) speed_kmh;
          gsa_h = attr (pt_gsa p) gsa_hdop;
          gga_h = attr (pt_gga p) gga_hdop;
          has_tpx_data = (truthy_float rmc_speed \<or> truthy_float vtg_true_track
                          \<or> truthy_float gsa_h \<or> truthy_float gga_h)
      in [''        <extensions>'']
         @ (if has_tpx_data
            then [''          <gpxtpx:TrackPointExtension>'']
                 @ (if truthy_float rmc_speed
                    then [''            <gpxtpx:speed>''
                          @ format_f 3 (float_mul rnd (the rmc_speed) (rnd 0.514444))
                          @ ''</gpxtpx:speed>'']
                    else if truthy_float vtg_speed_kmh
                    then [''            <gpxtpx:speed>''
                          @ format_f 3 (float_div rnd (the vtg_speed_kmh) (rnd 3.6))
                          @ ''</gpxtpx:speed>'']
                    else [])
                 @ (if truthy_float rmc_course
                    then [''            <gpxtpx:course>'' @ format_f 2 (the rmc_course)
                          @ ''</gpxtpx:course>'']
                    else if truthy_float vtg_true_track
                    then [''            <gpxtpx:course>'' @ format_f 2 (the vtg_true_track)
                          @ ''</gpxtpx:course>'']
                    else [])
                 @ (if truthy_float gsa_h
                    then [''            <gpxtpx:hdop>'' @ format_f 2 (the gsa_h) @ ''</gpxtpx:hdop>'']
                    else if truthy_float gga_h
                    then [''            <gpxtpx:hdop>'' @ format_f 2 (the gga_h) @ ''</gpxtpx:hdop>'']
                    else [])
                 @ [''          </gpxtpx:TrackPointExtension>'']
            else [])
         @ opt_lines (pt_rmc p) write_rmc_extensions
         @ opt_lines (pt_gga p) write_gga_extensions
         @ opt_lines (pt_gsa p) write_gsa_extensions
         @ opt_lines (pt_vtg p) write_vtg_extensions
         @ opt_lines (pt_gsv p) write_gsv_extensions
         @ [''        </extensions>'', ''      </trkpt>''])"

text \<open>
  \<open>pos = rmc if rmc else gga\<close>: the latitude, longitude and time of the
  position sentence of a point, None when the point has neither sentence.
\<close>

definition pos :: "point \<Rightarrow> (real option \<times> real option \<times> timeval option) option" where
  "pos p =
     (case pt_rmc p of
        Some r \<Rightarrow> Some (rmc_latitude r, rmc_longitude r, rmc_time r)
      | None \<Rightarrow>
          (case pt_gga p of
             Some g \<Rightarrow> Some (gga_latitude g, gga_longitude g, gga_time g)
           | None \<Rightarrow> None))"

text \<open>
  \<open>add_trackpoint\<close>, after the test that the file is open. \<open>CHR 0x22\<close> is
  the double quote.
\<close>

definition trackpoint_lines :: "(real \<Rightarrow> real) \<Rightarrow> point \<Rightarrow> string list" where
  "trackpoint_lines rnd p =
     (case pos p of
        None \<Rightarrow> []
      | Some (None, lon, tm) \<Rightarrow> []
      | Some (Some lat, None, tm) \<Rightarrow> []
      | Some (Some lat, Some lon, tm) \<Rightarrow>
          [''      <trkpt lat='' @ [CHR 0x22] @ format_f 8 (Fin lat) @ [CHR 0x22]
           @ '' lon='' @ [CHR 0x22] @ format_f 8 (Fin lon) @ [CHR 0x22] @ ''>'']
          @ (case attr (pt_gga p) altitude of
               None \<Rightarrow> []
             | Some a \<Rightarrow> [''        <ele>'' @ format_f 3 a @ ''</ele>''])
          @ (case tm of
               None \<Rightarrow> []
             | Some tv \<Rightarrow> [''        <time>'' @ strftime tv @ ''</time>''])
          @ (if truthy_int (attr (pt_gga p) num_sats)
             then [''        <sat>'' @ str_int (the (attr (pt_gga p) num_sats)) @ ''</sat>'']
             else [])
          @ write_extensions rnd p)"

text \<open>
  The writer's attributes. \<open>file_text\<close> stands for \<open>self.f\<close>: None before the
  file is opened, then the text written to it so far.
\<close>

record GPXWriter =
  track_started :: bool
  file_text :: "string option"
  compact :: bool

definition write_line :: "GPXWriter \<Rightarrow> string \<Rightarrow> GPXWriter" where
  "write_line w data =
     w\<lparr>file_text :=
         map_option (\<lambda>written. written @ (if compact w then strip data else data @ [CHR 0x0A]))
           (file_text w)\<rparr>"

definition add_trackpoint ::
  "(real \<Rightarrow> real) \<Rightarrow> GPXWriter \<Rightarrow> point \<Rightarrow> py_error + GPXWriter" where
  "add_trackpoint rnd w p =
     (if file_text w = None then Inl RuntimeError
      else Inr (foldl write_line w (trackpoint_lines rnd p)))"

text \<open>
  The pipeline \<open>process_files\<close> runs for one input file: the lines of the file
  parsed, grouped with the default window of one second, and every point given to
  \<open>add_trackpoint\<close>. The result is the lines written for the file.
\<close>

definition file_trackpoint_lines ::
  "(real \<Rightarrow> real) \<Rightarrow> string list \<Rightarrow> bool \<Rightarrow> string list" where
  "file_trackpoint_lines rnd input strict_validation =
     concat (map (trackpoint_lines rnd)
               (group_nmea_points rnd (snd (parse_nmea_stream rnd input strict_validation)) 1))"

section \<open>Test data\<close>

text \<open>
  The lines a receiver sends while it is searching, from \<open>test_nmea2gpx.py\<close>,
  and the records the parser decodes from them (proved below, for every \<open>rnd\<close>).
\<close>

definition gps_searching_data :: "string list" where
  "gps_searching_data =
     [''$GNGGA,,,,,,0,00,99.99,,,,,,*56'',
      ''$GNGSA,A,1,,,,,,,,,,,,,99.99,99.99,99.99*2E'',
      ''$GNGSA,A,1,,,,,,,,,,,,,99.99,99.99,99.99*2E'',
      ''$GNRMC,,V,,,,,,,,,,N*4D'',
      ''$GNVTG,,,,,,,,,N*2E'',
      ''$GNGGA,,,,,,0,00,99.99,,,,,,*56'',
      ''$GNGSA,A,1,,,,,,,,,,,,,99.99,99.99,99.99*2E'',
      ''$GNGSA,A,1,,,,,,,,,,,,,99.99,99.99,99.99*2E'']"

definition searching_gga :: "(real \<Rightarrow> real) \<Rightarrow> pytime gga" where
  "searching_gga rnd =
     \<lparr>talker = ''GN'',
      sentence = [[], [], [], [], [], ''0'', ''00'', ''99.99'', [], [], [], [], [], []],
      checksum = ''56'', sentence_type = ''GGA'', is_valid = True,
      gga_time = None, gga_latitude = None, gga_longitude = None,
      fix_quality = Some 0, num_sats = Some 0, gga_hdop = Some (Fin (rnd 99.99)), altitude = None,
      geoid_height = None, dgps_update = None, dgps_station = None\<rparr>"

definition searching_gsa :: "(real \<Rightarrow> real) \<Rightarrow> gsa" where
  "searching_gsa rnd =
     \<lparr>talker = ''GN'',
      sentence = [''A'', ''1'', [], [], [], [], [], [], [], [], [], [], [], [],
                  ''99.99'', ''99.99'', ''99.99''],
      checksum = ''2E'', sentence_type = ''GSA'', is_valid = True,
      mode_auto = ''A'', mode_fix_type = Some 1, sv_ids = [],
      pdop = Some (Fin (rnd 99.99)), gsa_hdop = Some (Fin (rnd 99.99)),
      vdop = Some (Fin (rnd 99.99))\<rparr>"

definition searching_rmc :: "pytime rmc" where
  "searching_rmc =
     \<lparr>talker = ''GN'',
      sentence = [[], ''V'', [], [], [], [], [], [], [], [], [], ''N''],
      checksum = ''4D'', sentence_type = ''RMC'', is_valid = True,
      rmc_time = None, date = None, status = False,
      rmc_latitude = None, rmc_longitude = None, speed = None, course = None, mag_var = None\<rparr>"

definition searching_vtg :: vtg where
  "searching_vtg =
     \<lparr>talker = ''GN'',
      sentence = [[], [], [], [], [], [], [], [], ''N''],
      checksum = ''2E'', sentence_type = ''VTG'', is_valid = True,
      true_track = None, mag_track = None, speed_knots = None, speed_kmh = None\<rparr>"

text \<open>
  Lines with a fix, and the records the parser decodes from them when no
  operation rounds, that is, with the identity for \<open>rnd\<close> (proved below). They
  are lines of \<open>test_nmea2gpx.py\<close>, but for \<open>late_rmc\<close>, which is its second
  RMC line moved one second later, and \<open>doc_gsv\<close>, which is the example in the
  docstring of the class GSV.

  \<open>$GNGGA,204415.00,5222.81631,N,00453.44115,E,1,08,1.69,-13.1,M,45.9,M,,*59\<close>
\<close>

definition fix_gga :: "pytime gga" where
  "fix_gga =
     \<lparr>talker = ''GN'',
      sentence = [''204415.00'', ''5222.81631'', ''N'', ''00453.44115'', ''E'', ''1'', ''08'',
                  ''1.69'', ''-13.1'', ''M'', ''45.9'', ''M'', [], []],
      checksum = ''59'', sentence_type = ''GGA'', is_valid = True,
      gga_time = Some \<lparr>hour = 20, minute = 44, second = 15, microsecond = 0\<rparr>,
      gga_latitude = Some (314281631 / 6000000), gga_longitude = Some (5868823 / 1200000),
      fix_quality = Some 1, num_sats = Some 8, gga_hdop = Some (Fin 1.69),
      altitude = Some (Fin (- 13.1)), geoid_height = Some (Fin 45.9),
      dgps_update = None, dgps_station = None\<rparr>"

text \<open>
  \<open>$GNRMC,204416.00,A,5222.81586,N,00453.44075,E,0.947,,290425,,,A*6C\<close>
\<close>

definition fix_rmc :: "pytime rmc" where
  "fix_rmc =
     \<lparr>talker = ''GN'',
      sentence = [''204416.00'', ''A'', ''5222.81586'', ''N'', ''00453.44075'', ''E'', ''0.947'',
                  [], ''290425'', [], [], ''A''],
      checksum = ''6C'', sentence_type = ''RMC'', is_valid = True,
      rmc_time = Some \<lparr>hour = 20, minute = 44, second = 16, microsecond = 0\<rparr>,
      date = Some \<lparr>year = 2025, month = 4, day = 29\<rparr>, status = True,
      rmc_latitude = Some (157140793 / 3000000), rmc_longitude = Some (1173763 / 240000),
      speed = Some (Fin 0.947), course = None, mag_var = None\<rparr>"

text \<open>
  \<open>$GNRMC,204418.00,A,5222.81530,N,00453.44076,E,0.654,,290425,,,A*61\<close>
\<close>

definition late_rmc :: "pytime rmc" where
  "late_rmc =
     \<lparr>talker = ''GN'',
      sentence = [''204418.00'', ''A'', ''5222.81530'', ''N'', ''00453.44076'', ''E'', ''0.654'',
                  [], ''290425'', [], [], ''A''],
      checksum = ''61'', sentence_type = ''RMC'', is_valid = True,
      rmc_time = Some \<lparr>hour = 20, minute = 44, second = 18, microsecond = 0\<rparr>,
      date = Some \<lparr>year = 2025, month = 4, day = 29\<rparr>, status = True,
      rmc_latitude = Some (10476051 / 200000), rmc_longitude = Some (7336019 / 1500000),
      speed = Some (Fin 0.654), course = None, mag_var = None\<rparr>"

text \<open>\<open>$GNGSA,A,3,71,86,80,87,,,,,,,,,5.54,1.69,5.28*16\<close>\<close>

definition fix_gsa :: gsa where
  "fix_gsa =
     \<lparr>talker = ''GN'',
      sentence = [''A'', ''3'', ''71'', ''86'', ''80'', ''87'', [], [], [], [], [], [], [], [],
                  ''5.54'', ''1.69'', ''5.28''],
      checksum = ''16'', sentence_type = ''GSA'', is_valid = True,
      mode_auto = ''A'', mode_fix_type = Some 3, sv_ids = [71, 86, 80, 87],
      pdop = Some (Fin 5.54), gsa_hdop = Some (Fin 1.69), vdop = Some (Fin 5.28)\<rparr>"

text \<open>\<open>$GNVTG,,T,,M,0.947,N,1.753,K,A*37\<close>\<close>

definition fix_vtg :: vtg where
  "fix_vtg =
     \<lparr>talker = ''GN'',
      sentence = [[], ''T'', [], ''M'', ''0.947'', ''N'', ''1.753'', ''K'', ''A''],
      checksum = ''37'', sentence_type = ''VTG'', is_valid = True,
      true_track = None, mag_track = None,
      speed_knots = Some (Fin 0.947), speed_kmh = Some (Fin 1.753)\<rparr>"

text \<open>
  \<open>$GPGSV,3,1,11,03,03,111,00,04,15,270,00,06,01,010,00,13,06,292,00*74\<close>
\<close>

definition doc_gsv :: gsv where
  "doc_gsv =
     \<lparr>talker = ''GP'',
      sentence = [''3'', ''1'', ''11'', ''03'', ''03'', ''111'', ''00'', ''04'', ''15'', ''270'',
                  ''00'', ''06'', ''01'', ''010'', ''00'', ''13'', ''06'', ''292'', ''00''],
      checksum = ''74'', sentence_type = ''GSV'', is_valid = True,
      num_messages = 3, msg_num = 1, sats_in_view = 11,
      sat_data =
        [\<lparr>prn = Some 3, elevation = Some 3, azimuth = Some 111, snr = Some 0\<rparr>,
         \<lparr>prn = Some 4, elevation = Some 15, azimuth = Some 270, snr = Some 0\<rparr>,
         \<lparr>prn = Some 6, elevation = Some 1, azimuth = Some 10, snr = Some 0\<rparr>,
         \<lparr>prn = Some 13, elevation = Some 6, azimuth = Some 292, snr = Some 0\<rparr>]\<rparr>"

text \<open>\<open>$GNRMC,,V,,,,,,,290425,,,N*45\<close>: an RMC line with a date and no time.\<close>

definition dated_rmc :: "pytime rmc" where
  "dated_rmc =
     \<lparr>talker = ''GN'',
      sentence = [[], ''V'', [], [], [], [], [], [], ''290425'', [], [], ''N''],
      checksum = ''45'', sentence_type = ''RMC'', is_valid = True,
      rmc_time = None, date = Some \<lparr>year = 2025, month = 4, day = 29\<rparr>, status = False,
      rmc_latitude = None, rmc_longitude = None, speed = None, course = None, mag_var = None\<rparr>"


text \<open>
  The dictionary of the grouping loop after the sentences \<open>fix_gga\<close>,
  \<open>fix_gsa\<close>, \<open>fix_rmc\<close>, \<open>fix_vtg\<close> and \<open>doc_gsv\<close> (proved below): every
  slot is taken.
\<close>

definition pending_all :: current_data where
  "pending_all =
     \<lparr>cur_rmc = Some fix_rmc, cur_gga = Some fix_gga, cur_gsa = Some fix_gsa,
      cur_vtg = Some fix_vtg, cur_gsv = Some doc_gsv,
      last_time = Some \<lparr>hour = 20, minute = 44, second = 16, microsecond = 0\<rparr>,
      current_date = Some \<lparr>year = 2025, month = 4, day = 29\<rparr>\<rparr>"
section \<open>The checksum test, as the code has it and as the specification words it\<close>

text \<open>
  \<open>checksum_passes\<close>: \<open>parse\<close> gets past its checksum test, that is, the line
  starts with \<open>$\<close> and neither the split at \<open>*\<close> nor the comparison raises.
\<close>

definition checksum_passes :: "string \<Rightarrow> bool" where
  "checksum_passes line =
     (startswith line ''$'' \<and> (case snd (verify_checksum line) of Inr _ \<Rightarrow> True | Inl _ \<Rightarrow> False))"

text \<open>
  The specification's wording of the same test, read off the line with its null
  bytes removed and its ends stripped: the payload is every character after the
  start marker and before the first \<open>*\<close>, the checksum field is what follows that
  \<open>*\<close>, and the field is compared, without regard to case, with the exclusive-or
  of the payload's byte values written as two upper-case hexadecimal digits.
\<close>

fun xor_bytes :: "string \<Rightarrow> nat" where
  "xor_bytes [] = 0"
| "xor_bytes (c # cs) = of_char c XOR xor_bytes cs"

definition two_hex_digits :: "nat \<Rightarrow> string" where
  "two_hex_digits n = [''0123456789ABCDEF'' ! (n div 16), ''0123456789ABCDEF'' ! (n mod 16)]"

definition spec_payload :: "string \<Rightarrow> string" where
  "spec_payload line = takeWhile (\<lambda>c. c \<noteq> CHR ''*'') (drop 1 (strip (remove_nulls line)))"

definition spec_checksum_field :: "string \<Rightarrow> string" where
  "spec_checksum_field line = drop 1 (dropWhile (\<lambda>c. c \<noteq> CHR ''*'') (strip (remove_nulls line)))"

definition spec_checksum_valid :: "string \<Rightarrow> bool" where
  "spec_checksum_valid line =
     (CHR ''*'' \<in> set (strip (remove_nulls line))
      \<and> upper (spec_checksum_field line) = upper (two_hex_digits (xor_bytes (spec_payload line))))"
section \<open>Lemmas shared by the proofs\<close>

lemma bind_err_Inr_iff: "bind_err m k = Inr y \<longleftrightarrow> (\<exists>x. m = Inr x \<and> k x = Inr y)"
  by (cases m) (simp_all add: bind_err_def)

lemma bind_err_Inl_iff:
  "bind_err m k = Inl e \<longleftrightarrow> m = Inl e \<or> (\<exists>x. m = Inr x \<and> k x = Inl e)"
  by (cases m) (simp_all add: bind_err_def)

lemma bind_log_returns: "bind_log (returns x) k = k x"
  by (simp add: bind_log_def returns_def)

lemma bind_log_quiet_Inr: "bind_log (quiet (Inr x)) k = k x"
  by (simp add: bind_log_def quiet_def)

lemma bind_log_quiet_Inl: "bind_log (quiet (Inl e)) k = ([], Inl e)"
  by (simp add: bind_log_def quiet_def)

lemma bind_log_Inr_iff:
  "bind_log m k = (lg, Inr y) \<longleftrightarrow>
     (\<exists>l1 x l2. m = (l1, Inr x) \<and> k x = (l2, Inr y) \<and> lg = l1 @ l2)"
proof (cases m)
  case (Pair l r)
  then show ?thesis
    by (cases r; cases "k (projr r)") (auto simp: bind_log_def split: prod.splits)
qed

lemma snd_bind_log_Inr_iff:
  "snd (bind_log m k) = Inr y \<longleftrightarrow> (\<exists>x. snd m = Inr x \<and> snd (k x) = Inr y)"
  by (cases m; cases "snd m") (auto simp: bind_log_def split: prod.splits)

lemma snd_bind_log_Inl_iff:
  "snd (bind_log m k) = Inl e \<longleftrightarrow>
     snd m = Inl e \<or> (\<exists>x. snd m = Inr x \<and> snd (k x) = Inl e)"
  by (cases m; cases "snd m") (auto simp: bind_log_def split: prod.splits)

lemma should_reject_iff:
  "should_reject_coordinates lat lon strict \<longleftrightarrow>
     strict \<and> ((lat = 0 \<and> lon = 0) \<or> (\<bar>lat\<bar> < 0.0001 \<and> \<bar>lon\<bar> < 0.0001))"
  by (auto simp: should_reject_coordinates_def detect_gps_errors_def rejectable_errors_def)

lemma bind_log_warning:
  "bind_log (logging_warning msg) k = ((WARNING, msg) # fst (k ()), snd (k ()))"
  by (simp add: bind_log_def logging_warning_def split: prod.splits)

lemma latitude_block_value:
  "convert_coordinate rnd raw hemi ''S'' = Inr lat \<Longrightarrow>
   snd (latitude_block rnd cls raw hemi) = Inr (if validate_latitude lat then Some lat else None)"
  by (simp add: latitude_block_def bind_log_quiet_Inr bind_log_warning returns_def)

lemma longitude_block_value:
  "convert_coordinate rnd raw hemi ''W'' = Inr lon \<Longrightarrow>
   snd (longitude_block rnd cls raw hemi latitude strict) =
     Inr (if \<not> validate_longitude lon then (latitude, None)
          else (case latitude of
                  None \<Rightarrow> (None, Some lon)
                | Some lat \<Rightarrow> if should_reject_coordinates lat lon strict then (None, None)
                              else (Some lat, Some lon)))"
  by (simp add: longitude_block_def bind_log_quiet_Inr bind_log_warning returns_def
      split: option.splits)

lemma both_present_True_iff:
  "both_present s i j = Inr True \<longleftrightarrow> i < length s \<and> s ! i \<noteq> [] \<and> j < length s \<and> s ! j \<noteq> []"
  by (auto simp: both_present_def index_def bind_err_def)

lemma RMC_init_coords:
  assumes "snd (RMC_init rnd tk s ck ty strict) = Inr r"
  shows "\<exists>lat.
     snd (if length s > 3 \<and> s ! 2 \<noteq> [] \<and> s ! 3 \<noteq> []
          then latitude_block rnd ''RMC'' (s ! 2) (s ! 3) else returns None) = Inr lat
   \<and> snd (if length s > 5 \<and> s ! 4 \<noteq> [] \<and> s ! 5 \<noteq> []
          then longitude_block rnd ''RMC'' (s ! 4) (s ! 5) lat strict else returns (lat, None))
       = Inr (rmc_latitude r, rmc_longitude r)"
proof -
  from assms obtain f0 lat pair sp co mv where
    lat: "snd (if length s > 3 \<and> s ! 2 \<noteq> [] \<and> s ! 3 \<noteq> []
          then latitude_block rnd ''RMC'' (s ! 2) (s ! 3) else returns None) = Inr lat"
    and pair: "snd (if length s > 5 \<and> s ! 4 \<noteq> [] \<and> s ! 5 \<noteq> []
          then longitude_block rnd ''RMC'' (s ! 4) (s ! 5) lat strict else returns (lat, None))
       = Inr pair"
    and r: "snd (returns
         \<lparr>talker = tk, sentence = s, checksum = ck, sentence_type = ty, is_valid = True,
          rmc_time = (if f0 \<noteq> [] then parse_time f0 else None),
          date = (if length s > 8 \<and> s ! 8 \<noteq> [] then parse_date (s ! 8) else None),
          status = (if length s > 1 then s ! 1 = ''A'' else False),
          rmc_latitude = fst pair, rmc_longitude = snd pair,
          speed = sp, course = co, mag_var = mv\<rparr>) = Inr r"
    unfolding RMC_init_def snd_bind_log_Inr_iff by blast
  from r have "rmc_latitude r = fst pair" "rmc_longitude r = snd pair"
    by (auto simp: returns_def)
  with lat pair show ?thesis by auto
qed

lemma GGA_init_coords:
  assumes "snd (GGA_init rnd tk s ck ty strict) = Inr r"
  shows "\<exists>has_lat has_lon lat.
     both_present s 1 2 = Inr has_lat \<and> both_present s 3 4 = Inr has_lon
   \<and> snd (if has_lat then latitude_block rnd ''GGA'' (s ! 1) (s ! 2) else returns None) = Inr lat
   \<and> snd (if has_lon then longitude_block rnd ''GGA'' (s ! 3) (s ! 4) lat strict
          else returns (lat, None))
       = Inr (gga_latitude r, gga_longitude r)"
proof -
  from assms obtain f0 has_lat lat has_lon pair fq ns hdp alt gh du ds where
    hl: "snd (quiet (both_present s 1 2)) = Inr has_lat"
    and lat: "snd (if has_lat then latitude_block rnd ''GGA'' (s ! 1) (s ! 2) else returns None)
       = Inr lat"
    and ho: "snd (quiet (both_present s 3 4)) = Inr has_lon"
    and pair: "snd (if has_lon then longitude_block rnd ''GGA'' (s ! 3) (s ! 4) lat strict
          else returns (lat, None)) = Inr pair"
    and r: "snd (returns
         \<lparr>talker = tk, sentence = s, checksum = ck, sentence_type = ty, is_valid = True,
          gga_time = (if f0 \<noteq> [] then parse_time f0 else None),
          gga_latitude = fst pair, gga_longitude = snd pair,
          fix_quality = fq, num_sats = ns, gga_hdop = hdp, altitude = alt,
          geoid_height = gh, dgps_update = du, dgps_station = ds\<rparr>) = Inr r"
    unfolding GGA_init_def snd_bind_log_Inr_iff by blast
  from r have "gga_latitude r = fst pair" "gga_longitude r = snd pair"
    by (auto simp: returns_def)
  with hl lat ho pair show ?thesis by (auto simp: quiet_def)
qed

lemma RMC_init_pair:
  assumes "snd (RMC_init rnd tk s ck ty strict) = Inr r"
    and "length s > 5" "s ! 2 \<noteq> []" "s ! 3 \<noteq> []" "s ! 4 \<noteq> []" "s ! 5 \<noteq> []"
    and "convert_coordinate rnd (s ! 2) (s ! 3) ''S'' = Inr lat"
    and "convert_coordinate rnd (s ! 4) (s ! 5) ''W'' = Inr lon"
  shows "(rmc_latitude r, rmc_longitude r) =
     (if \<not> validate_longitude lon
      then (if validate_latitude lat then Some lat else None, None)
      else if \<not> validate_latitude lat then (None, Some lon)
      else if should_reject_coordinates lat lon strict then (None, None)
      else (Some lat, Some lon))"
  using RMC_init_coords [OF assms(1)] assms(2-)
  by (auto simp: latitude_block_value longitude_block_value)

lemma GGA_init_pair:
  assumes "snd (GGA_init rnd tk s ck ty strict) = Inr r"
    and "length s > 4" "s ! 1 \<noteq> []" "s ! 2 \<noteq> []" "s ! 3 \<noteq> []" "s ! 4 \<noteq> []"
    and "convert_coordinate rnd (s ! 1) (s ! 2) ''S'' = Inr lat"
    and "convert_coordinate rnd (s ! 3) (s ! 4) ''W'' = Inr lon"
  shows "(gga_latitude r, gga_longitude r) =
     (if \<not> validate_longitude lon
      then (if validate_latitude lat then Some lat else None, None)
      else if \<not> validate_latitude lat then (None, Some lon)
      else if should_reject_coordinates lat lon strict then (None, None)
      else (Some lat, Some lon))"
proof -
  have a: "both_present s 1 2 = Inr True" and b: "both_present s 3 4 = Inr True"
    using assms(2-6) by (simp_all add: both_present_True_iff)
  from GGA_init_coords [OF assms(1)] a b assms(7,8) show ?thesis
    by (auto simp: latitude_block_value longitude_block_value)
qed

lemma float_of_real_Fin: "\<bar>v\<bar> \<le> 10 ^ 100 \<Longrightarrow> float_of_real rnd v = Fin (rnd v)"
proof -
  have "(10::real) ^ 100 < 2 ^ 1024 - 2 ^ 970" by simp
  then show "\<bar>v\<bar> \<le> 10 ^ 100 \<Longrightarrow> float_of_real rnd v = Fin (rnd v)"
    unfolding float_of_real_def by (auto simp del: power_numeral simp add: abs_le_iff not_le)
qed

lemmas prim_defs = bind_err_def index_def slice_def isspace_def strip_def isdigit_def
  upper_char_def upper_def lower_char_def lower_def startswith_def remove_nulls_def
  digit_val_def digits_val_def py_int_def float_neg_def float_truthy_def parse_exponent_def
  parse_decimal_def py_float_def int_of_float_def datetime_time_def is_leap_def days_in_month_def
  datetime_date_def float_of_real_Fin float_of_int_def float_div_def float_mul_def

lemmas dec_defs = validate_latitude_def validate_longitude_def detect_gps_errors_def
  rejectable_errors_def should_reject_coordinates_def NMEASentence_init_def float_field_def
  int_field_def guarded_float_field_def guarded_int_field_def parse_time_def parse_date_def
  convert_coordinate_def returns_def quiet_def logging_warning_def bind_log_def
  latitude_block_def longitude_block_def GSA_init_def VTG_init_def plain_int_field_def
  opt_int_def GSV_init_def rmc_mag_var_def RMC_init_def both_present_def GGA_init_def

subsection \<open>Evaluation of the test data, and the grouping loop\<close>

lemmas parse_defs = split_checksum_def calc_cksum_def hex_char_def format_02X_def
  verify_checksum_def dispatch_def parse_def decode_ascii_def nmea_is_valid_def

lemmas group_defs = initial_data_def stamp_def rmc_set_time_def gga_set_time_def get_point_def
  clear_point_def msg_time_of_def secs_def window_flush_def store_def step_def
  group_nmea_points_def

lemma replicate_numeral: "replicate (numeral k) x = x # replicate (pred_numeral k) x"
  by (simp add: numeral_eq_Suc)

lemma parse_searching_gga:
  "parse rnd ''$GNGGA,,,,,,0,00,99.99,,,,,,*56'' False = ([], Inr (GGA (searching_gga rnd)))"
  by (simp add: parse_defs prim_defs dec_defs searching_gga_def)

lemma parse_searching_gsa:
  "parse rnd ''$GNGSA,A,1,,,,,,,,,,,,,99.99,99.99,99.99*2E'' False
     = ([], Inr (GSA (searching_gsa rnd)))"
  by (simp add: parse_defs prim_defs dec_defs searching_gsa_def)

lemma parse_searching_rmc:
  "parse rnd ''$GNRMC,,V,,,,,,,,,,N*4D'' False = ([], Inr (RMC searching_rmc))"
  by (simp add: parse_defs prim_defs dec_defs searching_rmc_def)

lemma parse_searching_vtg:
  "parse rnd ''$GNVTG,,,,,,,,,N*2E'' False = ([], Inr (VTG searching_vtg))"
  by (simp add: parse_defs prim_defs dec_defs searching_vtg_def)

lemma parse_fix_gga:
  "parse (\<lambda>x. x) ''$GNGGA,204415.00,5222.81631,N,00453.44115,E,1,08,1.69,-13.1,M,45.9,M,,*59''
     False = ([], Inr (GGA fix_gga))"
  by (simp add: parse_defs prim_defs dec_defs fix_gga_def)

lemma parse_fix_rmc:
  "parse (\<lambda>x. x) ''$GNRMC,204416.00,A,5222.81586,N,00453.44075,E,0.947,,290425,,,A*6C'' False
     = ([], Inr (RMC fix_rmc))"
  by (simp add: parse_defs prim_defs dec_defs fix_rmc_def)

lemma parse_late_rmc:
  "parse (\<lambda>x. x) ''$GNRMC,204418.00,A,5222.81530,N,00453.44076,E,0.654,,290425,,,A*61'' False
     = ([], Inr (RMC late_rmc))"
  by (simp add: parse_defs prim_defs dec_defs late_rmc_def)

lemma upt_2_14: "[2..<14] = [2, 3, 4, 5, 6, 7, 8, 9, 10, 11, 12, 13]"
  by (simp add: upt_rec)

lemma parse_fix_gsa:
  "parse (\<lambda>x. x) ''$GNGSA,A,3,71,86,80,87,,,,,,,,,5.54,1.69,5.28*16'' False
     = ([], Inr (GSA fix_gsa))"
  by (simp add: parse_defs prim_defs dec_defs fix_gsa_def upt_2_14 Let_def)

lemma parse_fix_vtg:
  "parse (\<lambda>x. x) ''$GNVTG,,T,,M,0.947,N,1.753,K,A*37'' False = ([], Inr (VTG fix_vtg))"
  by (simp add: parse_defs prim_defs dec_defs fix_vtg_def)

lemma upt_0_4: "[0..<4] = [0, 1, 2, 3]"
  by (simp add: upt_rec)

lemma parse_doc_gsv:
  "parse rnd ''$GPGSV,3,1,11,03,03,111,00,04,15,270,00,06,01,010,00,13,06,292,00*74'' False
     = ([], Inr (GSV doc_gsv))"
  by (simp add: parse_defs prim_defs dec_defs doc_gsv_def upt_0_4 Let_def)

lemma parse_dated_rmc:
  "parse rnd ''$GNRMC,,V,,,,,,,290425,,,N*45'' False = ([], Inr (RMC dated_rmc))"
  by (simp add: parse_defs prim_defs dec_defs dated_rmc_def)

lemma parse_searching_stream:
  "parse_nmea_stream rnd gps_searching_data False =
     ([], [GGA (searching_gga rnd), GSA (searching_gsa rnd), GSA (searching_gsa rnd),
           RMC searching_rmc, VTG searching_vtg, GGA (searching_gga rnd),
           GSA (searching_gsa rnd), GSA (searching_gsa rnd)])"
  by (simp add: gps_searching_data_def startswith_def decode_ascii_def strip_def isspace_def
        remove_nulls_def nmea_is_valid_def parse_searching_gga parse_searching_gsa
        parse_searching_rmc parse_searching_vtg searching_gga_def searching_gsa_def
        searching_rmc_def searching_vtg_def)

lemma group_searching:
  "group_nmea_points rnd
     [GGA (searching_gga rnd), GSA (searching_gsa rnd), GSA (searching_gsa rnd),
      RMC searching_rmc, VTG searching_vtg, GGA (searching_gga rnd),
      GSA (searching_gsa rnd), GSA (searching_gsa rnd)] 1 =
   [\<lparr>pt_rmc = Some (rmc_set_time None searching_rmc),
     pt_gga = Some (gga_set_time None (searching_gga rnd)),
     pt_gsa = Some (searching_gsa rnd), pt_vtg = Some searching_vtg, pt_gsv = None\<rparr>,
    \<lparr>pt_rmc = None, pt_gga = Some (gga_set_time None (searching_gga rnd)),
     pt_gsa = Some (searching_gsa rnd), pt_vtg = None, pt_gsv = None\<rparr>]"
  by (simp add: initial_data_def get_point_def clear_point_def msg_time_of_def window_flush_def
        store_def step_def group_nmea_points_def searching_gga_def searching_rmc_def Let_def)

lemma group_fix_pair:
  "group_nmea_points (\<lambda>x. x) [GGA fix_gga, RMC fix_rmc] 1 =
     [\<lparr>pt_rmc = Some (rmc_set_time (date fix_rmc) fix_rmc),
       pt_gga = Some (gga_set_time (date fix_rmc) fix_gga),
       pt_gsa = None, pt_vtg = None, pt_gsv = None\<rparr>]"
  by (simp add: initial_data_def get_point_def clear_point_def msg_time_of_def window_flush_def
        store_def step_def group_nmea_points_def secs_def fix_gga_def fix_rmc_def Let_def)

lemma reach_pending_all:
  "foldl (\<lambda>c s. snd (step (\<lambda>x. x) 1 c s)) initial_data
     [GGA fix_gga, GSA fix_gsa, RMC fix_rmc, VTG fix_vtg, GSV doc_gsv] = pending_all"
  by (simp add: initial_data_def clear_point_def msg_time_of_def window_flush_def store_def
        step_def secs_def fix_gga_def fix_rmc_def pending_all_def Let_def)

lemma window_flush_emits:
  "p \<in> set (fst (window_flush rnd tw cur s)) \<Longrightarrow>
   p = get_point cur \<and> (cur_rmc cur \<noteq> None \<or> cur_gga cur \<noteq> None)"
  by (auto simp: window_flush_def split: option.splits if_splits)

lemma store_emits:
  "p \<in> set (fst (store cur s)) \<Longrightarrow>
   p = get_point cur \<and> (cur_rmc cur \<noteq> None \<or> cur_gga cur \<noteq> None)"
  by (cases s) (auto simp: store_def Let_def split: if_splits)

lemma step_emits:
  assumes "p \<in> set (fst (step rnd tw cur s))"
  shows "\<exists>c. p = get_point c \<and> (cur_rmc c \<noteq> None \<or> cur_gga c \<noteq> None)"
proof -
  obtain o1 c1 where w: "window_flush rnd tw cur s = (o1, c1)"
    by (cases "window_flush rnd tw cur s")
  obtain o2 c2 where st: "store c1 s = (o2, c2)" by (cases "store c1 s")
  from assms w st have "p \<in> set o1 \<or> p \<in> set o2" by (auto simp: step_def)
  then show ?thesis
  proof
    assume "p \<in> set o1"
    with w window_flush_emits [of p rnd tw cur s] show ?thesis by auto
  next
    assume "p \<in> set o2"
    with st store_emits [of p c1 s] show ?thesis by auto
  qed
qed

lemma run_emits:
  "p \<in> set (run rnd tw cur ss) \<Longrightarrow>
   \<exists>c. p = get_point c \<and> (cur_rmc c \<noteq> None \<or> cur_gga c \<noteq> None)"
proof (induction ss arbitrary: cur)
  case Nil
  then show ?case by (auto split: if_splits)
next
  case (Cons s ss)
  obtain out c where st: "step rnd tw cur s = (out, c)" by (cases "step rnd tw cur s")
  with Cons.prems have "p \<in> set out \<or> p \<in> set (run rnd tw c ss)" by auto
  then show ?case
  proof
    assume "p \<in> set out"
    with st step_emits [of p rnd tw cur s] show ?thesis by simp
  next
    assume "p \<in> set (run rnd tw c ss)"
    then show ?thesis by (rule Cons.IH)
  qed
qed

lemma get_point_has_position:
  "cur_rmc c \<noteq> None \<or> cur_gga c \<noteq> None \<Longrightarrow>
   pt_rmc (get_point c) \<noteq> None \<or> pt_gga (get_point c) \<noteq> None"
  by (auto simp: get_point_def Let_def)

lemma trackpoint_lines_nonempty:
  "trackpoint_lines rnd p \<noteq> [] \<Longrightarrow> \<exists>lat lon tm. pos p = Some (Some lat, Some lon, tm)"
  by (auto simp: trackpoint_lines_def split: option.splits prod.splits)

lemma zero_pad_1900: "zero_pad 4 1900 = ''1900''" "zero_pad 2 (Suc 0) = ''01''"
  by (simp_all add: zero_pad_def)

lemma strftime_TimeOfDay:
  "strftime (TimeOfDay t) =
     ''1900-01-01T'' @ zero_pad 2 (hour t) @ '':'' @ zero_pad 2 (minute t) @ '':''
     @ zero_pad 2 (second t) @ ''.'' @ zero_pad 6 (microsecond t) @ ''Z''"
  by (simp add: strftime_def zero_pad_1900)

lemma pos_get_point_time:
  assumes "\<forall>r. cur_rmc cur = Some r \<longrightarrow> date r = None" and "current_date cur = None"
    and "pos (get_point cur) = Some (la, lo, Some tv)"
  shows "\<exists>t. tv = TimeOfDay t"
  using assms
  by (auto simp: pos_def get_point_def rmc_set_time_def gga_set_time_def stamp_def Let_def
           split: option.splits)

section \<open>Coordinate validation (C6)\<close>

text \<open>
  C6. Rejection happens exactly in strict mode for a pair flagged exactly zero or
  near zero, and then the decoders set both coordinates absent; a pole or a
  180th-meridian pair is flagged and never rejected.
\<close>

theorem C6_strict_rejection:
  "(should_reject_coordinates lat lon strict \<longleftrightarrow>
      strict \<and> (''Zero coordinates detected (likely GPS startup)'' \<in> set (detect_gps_errors lat lon)
               \<or> ''Coordinates very close to zero (suspicious)'' \<in> set (detect_gps_errors lat lon)))
   \<and> (''Zero coordinates detected (likely GPS startup)'' \<in> set (detect_gps_errors lat lon)
        \<longleftrightarrow> lat = 0 \<and> lon = 0)
   \<and> (''Coordinates very close to zero (suspicious)'' \<in> set (detect_gps_errors lat lon)
        \<longleftrightarrow> \<not> (lat = 0 \<and> lon = 0) \<and> \<bar>lat\<bar> < 0.0001 \<and> \<bar>lon\<bar> < 0.0001)
   \<and> (\<bar>lat\<bar> = 90 \<longrightarrow>
        ''Latitude at pole - verify if correct'' \<in> set (detect_gps_errors lat lon)
        \<and> \<not> should_reject_coordinates lat lon strict)
   \<and> (\<bar>lon\<bar> = 180 \<longrightarrow>
        ''Longitude at 180th meridian - verify if correct'' \<in> set (detect_gps_errors lat lon)
        \<and> \<not> should_reject_coordinates lat lon strict)
   \<and> (snd (RMC_init rnd tk s ck ty strict) = Inr r
        \<and> length s > 5 \<and> s ! 2 \<noteq> [] \<and> s ! 3 \<noteq> [] \<and> s ! 4 \<noteq> [] \<and> s ! 5 \<noteq> []
        \<and> convert_coordinate rnd (s ! 2) (s ! 3) ''S'' = Inr lat
        \<and> convert_coordinate rnd (s ! 4) (s ! 5) ''W'' = Inr lon
        \<and> validate_coordinates lat lon \<longrightarrow>
        (rmc_latitude r, rmc_longitude r) =
          (if should_reject_coordinates lat lon strict then (None, None) else (Some lat, Some lon)))
   \<and> (snd (GGA_init rnd tk s' ck ty strict) = Inr g
        \<and> length s' > 4 \<and> s' ! 1 \<noteq> [] \<and> s' ! 2 \<noteq> [] \<and> s' ! 3 \<noteq> [] \<and> s' ! 4 \<noteq> []
        \<and> convert_coordinate rnd (s' ! 1) (s' ! 2) ''S'' = Inr lat
        \<and> convert_coordinate rnd (s' ! 3) (s' ! 4) ''W'' = Inr lon
        \<and> validate_coordinates lat lon \<longrightarrow>
        (gga_latitude g, gga_longitude g) =
          (if should_reject_coordinates lat lon strict then (None, None) else (Some lat, Some lon)))"
proof (intro conjI impI)
  show "should_reject_coordinates lat lon strict \<longleftrightarrow>
      strict \<and> (''Zero coordinates detected (likely GPS startup)'' \<in> set (detect_gps_errors lat lon)
               \<or> ''Coordinates very close to zero (suspicious)'' \<in> set (detect_gps_errors lat lon))"
    by (auto simp: should_reject_coordinates_def detect_gps_errors_def rejectable_errors_def)
  show "''Zero coordinates detected (likely GPS startup)'' \<in> set (detect_gps_errors lat lon)
        \<longleftrightarrow> lat = 0 \<and> lon = 0"
    by (auto simp: detect_gps_errors_def)
  show "''Coordinates very close to zero (suspicious)'' \<in> set (detect_gps_errors lat lon)
        \<longleftrightarrow> \<not> (lat = 0 \<and> lon = 0) \<and> \<bar>lat\<bar> < 0.0001 \<and> \<bar>lon\<bar> < 0.0001"
    by (auto simp: detect_gps_errors_def)
next
  assume "\<bar>lat\<bar> = 90"
  then show "''Latitude at pole - verify if correct'' \<in> set (detect_gps_errors lat lon)"
    by (simp add: detect_gps_errors_def)
  from \<open>\<bar>lat\<bar> = 90\<close> show "\<not> should_reject_coordinates lat lon strict"
    by (auto simp: should_reject_iff)
next
  assume "\<bar>lon\<bar> = 180"
  then show "''Longitude at 180th meridian - verify if correct'' \<in> set (detect_gps_errors lat lon)"
    by (simp add: detect_gps_errors_def)
  from \<open>\<bar>lon\<bar> = 180\<close> show "\<not> should_reject_coordinates lat lon strict"
    by (auto simp: should_reject_iff)
next
  assume a: "snd (RMC_init rnd tk s ck ty strict) = Inr r
        \<and> length s > 5 \<and> s ! 2 \<noteq> [] \<and> s ! 3 \<noteq> [] \<and> s ! 4 \<noteq> [] \<and> s ! 5 \<noteq> []
        \<and> convert_coordinate rnd (s ! 2) (s ! 3) ''S'' = Inr lat
        \<and> convert_coordinate rnd (s ! 4) (s ! 5) ''W'' = Inr lon
        \<and> validate_coordinates lat lon"
  with RMC_init_pair [of rnd tk s ck ty strict r lat lon]
  show "(rmc_latitude r, rmc_longitude r) =
          (if should_reject_coordinates lat lon strict then (None, None) else (Some lat, Some lon))"
    by (simp add: validate_coordinates_def)
next
  assume a: "snd (GGA_init rnd tk s' ck ty strict) = Inr g
        \<and> length s' > 4 \<and> s' ! 1 \<noteq> [] \<and> s' ! 2 \<noteq> [] \<and> s' ! 3 \<noteq> [] \<and> s' ! 4 \<noteq> []
        \<and> convert_coordinate rnd (s' ! 1) (s' ! 2) ''S'' = Inr lat
        \<and> convert_coordinate rnd (s' ! 3) (s' ! 4) ''W'' = Inr lon
        \<and> validate_coordinates lat lon"
  with GGA_init_pair [of rnd tk s' ck ty strict g lat lon]
  show "(gga_latitude g, gga_longitude g) =
          (if should_reject_coordinates lat lon strict then (None, None) else (Some lat, Some lon))"
    by (simp add: validate_coordinates_def)
qed

theorem C6_strict_rejection_witness:
  "snd (RMC_init (\<lambda>x. x) ''GN'' [''204416.00'', ''A'', ''0000.000'', ''N'', ''00000.000'', ''E'']
          ''6C'' ''RMC'' True)
     = Inr \<lparr>talker = ''GN'',
            sentence = [''204416.00'', ''A'', ''0000.000'', ''N'', ''00000.000'', ''E''],
            checksum = ''6C'', sentence_type = ''RMC'', is_valid = True,
            rmc_time = Some \<lparr>hour = 20, minute = 44, second = 16, microsecond = 0\<rparr>,
            date = None, status = True, rmc_latitude = None, rmc_longitude = None,
            speed = None, course = None, mag_var = None\<rparr>
   \<and> convert_coordinate (\<lambda>x. x) ''0000.000'' ''N'' ''S'' = Inr 0
   \<and> convert_coordinate (\<lambda>x. x) ''00000.000'' ''E'' ''W'' = Inr 0
   \<and> validate_coordinates 0 0
   \<and> should_reject_coordinates 0 0 True
   \<and> \<not> should_reject_coordinates 0 0 False
   \<and> \<bar>90 :: real\<bar> = 90
   \<and> \<not> should_reject_coordinates 90 0 True
   \<and> \<bar>- 180 :: real\<bar> = 180
   \<and> \<not> should_reject_coordinates 0 (- 180) True"
proof -
  have e: "snd (RMC_init (\<lambda>x. x) ''GN'' [''204416.00'', ''A'', ''0000.000'', ''N'', ''00000.000'', ''E'']
          ''6C'' ''RMC'' True)
     = Inr \<lparr>talker = ''GN'',
            sentence = [''204416.00'', ''A'', ''0000.000'', ''N'', ''00000.000'', ''E''],
            checksum = ''6C'', sentence_type = ''RMC'', is_valid = True,
            rmc_time = Some \<lparr>hour = 20, minute = 44, second = 16, microsecond = 0\<rparr>,
            date = None, status = True, rmc_latitude = None, rmc_longitude = None,
            speed = None, course = None, mag_var = None\<rparr>"
    by (simp add: prim_defs dec_defs)
  have c: "convert_coordinate (\<lambda>x. x) ''0000.000'' ''N'' ''S'' = Inr 0"
    "convert_coordinate (\<lambda>x. x) ''00000.000'' ''E'' ''W'' = Inr 0"
    by (simp_all add: prim_defs dec_defs)
  have v: "validate_coordinates 0 0"
    by (simp add: validate_coordinates_def validate_latitude_def validate_longitude_def)
  have z: "''Zero coordinates detected (likely GPS startup)'' \<in> set (detect_gps_errors 0 0)"
    by (simp add: detect_gps_errors_def)
  from C6_strict_rejection [where lat = 0 and lon = 0 and strict = True and rnd = "\<lambda>x. x"] z
  have r1: "should_reject_coordinates 0 0 True" by blast
  from C6_strict_rejection [where lat = 0 and lon = 0 and strict = False]
  have r2: "\<not> should_reject_coordinates 0 0 False" by blast
  from C6_strict_rejection [where lat = 90 and lon = 0 and strict = True]
  have r3: "\<not> should_reject_coordinates 90 0 True" by simp
  from C6_strict_rejection [where lat = 0 and lon = "- 180" and strict = True]
  have r4: "\<not> should_reject_coordinates 0 (- 180) True" by simp
  from e c v r1 r2 r3 r4 show ?thesis by simp
qed

section \<open>The grouping state machine and the serializer (C1, C2, C8, C10)\<close>

text \<open>
  C2. When the incoming RMC or GGA sentence has a time, a last-seen time is
  recorded and the two differ by more than the window, the first part of the loop
  body yields one point exactly when an RMC or a GGA is pending, and clears the
  pending RMC, GGA, VTG and the last-seen time. The point holds the pending GSA,
  VTG and GSV as they are, and the pending RMC and GGA with every attribute as
  decoded but the time: with both pending and a time and a date on the RMC, the
  time of each becomes the RMC's date with the sentence's own time; with the GGA
  alone and an inherited date, the GGA's time becomes that date with its time;
  otherwise the time stays a time of day. Nothing else is yielded in that
  iteration, and the pending GSA and GSV are unchanged after it.
\<close>

theorem C2_window_flush:
  assumes "(\<exists>r. s = RMC r \<and> rmc_time r = Some mt) \<or> (\<exists>g. s = GGA g \<and> gga_time g = Some mt)"
    and "last_time cur = Some lt"
    and "\<bar>rnd (secs rnd mt - secs rnd lt)\<bar> > time_window"
  shows "window_flush rnd time_window cur s =
           (if cur_rmc cur \<noteq> None \<or> cur_gga cur \<noteq> None
            then [\<lparr>pt_rmc =
                     (case cur_rmc cur of
                        None \<Rightarrow> None
                      | Some r \<Rightarrow>
                          Some \<lparr>talker = talker r, sentence = sentence r, checksum = checksum r,
                                sentence_type = sentence_type r, is_valid = is_valid r,
                                rmc_time =
                                  (case (rmc_time r, date r, cur_gga cur) of
                                     (None, _, _) \<Rightarrow> None
                                   | (Some t, Some d, Some g) \<Rightarrow> Some (DateTime d t)
                                   | (Some t, _, _) \<Rightarrow> Some (TimeOfDay t)),
                                date = date r, status = status r,
                                rmc_latitude = rmc_latitude r, rmc_longitude = rmc_longitude r,
                                speed = speed r, course = course r, mag_var = mag_var r\<rparr>),
                   pt_gga =
                     (case cur_gga cur of
                        None \<Rightarrow> None
                      | Some g \<Rightarrow>
                          Some \<lparr>talker = talker g, sentence = sentence g, checksum = checksum g,
                                sentence_type = sentence_type g, is_valid = is_valid g,
                                gga_time =
                                  (case (gga_time g, cur_rmc cur) of
                                     (None, _) \<Rightarrow> None
                                   | (Some t, Some r) \<Rightarrow>
                                       (case (rmc_time r, date r) of
                                          (Some rt, Some d) \<Rightarrow> Some (DateTime d t)
                                        | _ \<Rightarrow> Some (TimeOfDay t))
                                   | (Some t, None) \<Rightarrow>
                                       (case current_date cur of
                                          Some d \<Rightarrow> Some (DateTime d t)
                                        | None \<Rightarrow> Some (TimeOfDay t))),
                                gga_latitude = gga_latitude g, gga_longitude = gga_longitude g,
                                fix_quality = fix_quality g, num_sats = num_sats g,
                                gga_hdop = gga_hdop g, altitude = altitude g,
                                geoid_height = geoid_height g, dgps_update = dgps_update g,
                                dgps_station = dgps_station g\<rparr>),
                   pt_gsa = cur_gsa cur, pt_vtg = cur_vtg cur, pt_gsv = cur_gsv cur\<rparr>]
            else [],
            cur\<lparr>cur_rmc := None, cur_gga := None, cur_vtg := None, last_time := None\<rparr>)
       \<and> fst (step rnd time_window cur s) = fst (window_flush rnd time_window cur s)
       \<and> cur_gsa (snd (step rnd time_window cur s)) = cur_gsa cur
       \<and> cur_gsv (snd (step rnd time_window cur s)) = cur_gsv cur"
proof -
  from assms(1) have mt: "msg_time_of s = Some mt"
    by (auto simp: msg_time_of_def)
  with assms(2,3) have w: "window_flush rnd time_window cur s =
           (if cur_rmc cur \<noteq> None \<or> cur_gga cur \<noteq> None then [get_point cur] else [],
            cur\<lparr>cur_rmc := None, cur_gga := None, cur_vtg := None, last_time := None\<rparr>)"
    by (simp add: window_flush_def clear_point_def)
  from assms(1) w have st: "fst (step rnd time_window cur s) = fst (window_flush rnd time_window cur s)
       \<and> cur_gsa (snd (step rnd time_window cur s)) = cur_gsa cur
       \<and> cur_gsv (snd (step rnd time_window cur s)) = cur_gsv cur"
    by (auto simp: step_def store_def Let_def clear_point_def)
  have g: "get_point cur =
      \<lparr>pt_rmc = map_option (rmc_set_time
                   (case (cur_rmc cur, cur_gga cur) of
                      (Some r, Some g) \<Rightarrow> (if rmc_time r \<noteq> None \<and> date r \<noteq> None then date r else None)
                    | _ \<Rightarrow> None)) (cur_rmc cur),
       pt_gga = map_option (gga_set_time
                   (case (cur_rmc cur, cur_gga cur) of
                      (Some r, Some g) \<Rightarrow> (if rmc_time r \<noteq> None \<and> date r \<noteq> None then date r else None)
                    | (None, Some g) \<Rightarrow> current_date cur
                    | _ \<Rightarrow> None)) (cur_gga cur),
       pt_gsa = cur_gsa cur, pt_vtg = cur_vtg cur, pt_gsv = cur_gsv cur\<rparr>"
    by (simp add: get_point_def Let_def)
  show ?thesis
  proof (rule conjI, goal_cases)
    case 1
    show ?case unfolding w g
      by (simp add: rmc_set_time_def gga_set_time_def stamp_def split: option.splits)
  next
    case 2
    from st show ?case .
  qed
qed

theorem C2_window_flush_witness:
  "rmc_time late_rmc = Some \<lparr>hour = 20, minute = 44, second = 18, microsecond = 0\<rparr>
   \<and> last_time pending_all = Some \<lparr>hour = 20, minute = 44, second = 16, microsecond = 0\<rparr>
   \<and> \<bar>secs (\<lambda>x. x) \<lparr>hour = 20, minute = 44, second = 18, microsecond = 0\<rparr>
       - secs (\<lambda>x. x) \<lparr>hour = 20, minute = 44, second = 16, microsecond = 0\<rparr>\<bar> > 1
   \<and> window_flush (\<lambda>x. x) 1 pending_all (RMC late_rmc) =
       ([\<lparr>pt_rmc =
            Some \<lparr>talker = ''GN'',
                  sentence = [''204416.00'', ''A'', ''5222.81586'', ''N'', ''00453.44075'', ''E'',
                              ''0.947'', [], ''290425'', [], [], ''A''],
                  checksum = ''6C'', sentence_type = ''RMC'', is_valid = True,
                  rmc_time = Some (DateTime \<lparr>year = 2025, month = 4, day = 29\<rparr>
                                     \<lparr>hour = 20, minute = 44, second = 16, microsecond = 0\<rparr>),
                  date = Some \<lparr>year = 2025, month = 4, day = 29\<rparr>, status = True,
                  rmc_latitude = Some (157140793 / 3000000),
                  rmc_longitude = Some (1173763 / 240000),
                  speed = Some (Fin 0.947), course = None, mag_var = None\<rparr>,
          pt_gga =
            Some \<lparr>talker = ''GN'',
                  sentence = [''204415.00'', ''5222.81631'', ''N'', ''00453.44115'', ''E'', ''1'',
                              ''08'', ''1.69'', ''-13.1'', ''M'', ''45.9'', ''M'', [], []],
                  checksum = ''59'', sentence_type = ''GGA'', is_valid = True,
                  gga_time = Some (DateTime \<lparr>year = 2025, month = 4, day = 29\<rparr>
                                     \<lparr>hour = 20, minute = 44, second = 15, microsecond = 0\<rparr>),
                  gga_latitude = Some (314281631 / 6000000),
                  gga_longitude = Some (5868823 / 1200000),
                  fix_quality = Some 1, num_sats = Some 8, gga_hdop = Some (Fin 1.69),
                  altitude = Some (Fin (- 13.1)), geoid_height = Some (Fin 45.9),
                  dgps_update = None, dgps_station = None\<rparr>,
          pt_gsa = Some fix_gsa, pt_vtg = Some fix_vtg, pt_gsv = Some doc_gsv\<rparr>],
        \<lparr>cur_rmc = None, cur_gga = None, cur_gsa = Some fix_gsa, cur_vtg = None,
         cur_gsv = Some doc_gsv, last_time = None,
         current_date = Some \<lparr>year = 2025, month = 4, day = 29\<rparr>\<rparr>)
   \<and> fst (step (\<lambda>x. x) 1 pending_all (RMC late_rmc))
       = fst (window_flush (\<lambda>x. x) 1 pending_all (RMC late_rmc))
   \<and> cur_gsa (snd (step (\<lambda>x. x) 1 pending_all (RMC late_rmc))) = Some fix_gsa
   \<and> cur_gsv (snd (step (\<lambda>x. x) 1 pending_all (RMC late_rmc))) = Some doc_gsv"
proof -
  have t: "rmc_time late_rmc = Some \<lparr>hour = 20, minute = 44, second = 18, microsecond = 0\<rparr>"
    by (simp add: late_rmc_def)
  have l: "last_time pending_all = Some \<lparr>hour = 20, minute = 44, second = 16, microsecond = 0\<rparr>"
    by (simp add: pending_all_def)
  have d: "\<bar>secs (\<lambda>x. x) \<lparr>hour = 20, minute = 44, second = 18, microsecond = 0\<rparr>
       - secs (\<lambda>x. x) \<lparr>hour = 20, minute = 44, second = 16, microsecond = 0\<rparr>\<bar> > 1"
    by (simp add: secs_def)
  from C2_window_flush
         [where s = "RMC late_rmc" and rnd = "\<lambda>x. x"
            and mt = "\<lparr>hour = 20, minute = 44, second = 18, microsecond = 0\<rparr>"
            and lt = "\<lparr>hour = 20, minute = 44, second = 16, microsecond = 0\<rparr>"
            and time_window = 1 and cur = pending_all]
       t l d
  show ?thesis by (simp add: pending_all_def fix_rmc_def fix_gga_def)
qed

text \<open>
  C8, as the code has it. After an iteration the sentence is in the slot of its
  type; for an RMC or a GGA the last-seen time is the sentence's time (None when it
  has none); the inherited date is replaced only by an RMC that has both a time and
  a date.
\<close>

theorem C8_store:
  assumes "c' = snd (step rnd time_window cur s)"
  shows "(\<forall>r. s = RMC r \<longrightarrow>
            cur_rmc c' = Some r \<and> last_time c' = rmc_time r
            \<and> current_date c' =
                (if rmc_time r \<noteq> None \<and> date r \<noteq> None then date r else current_date cur))
       \<and> (\<forall>g. s = GGA g \<longrightarrow>
            cur_gga c' = Some g \<and> last_time c' = gga_time g
            \<and> current_date c' = current_date cur)
       \<and> (\<forall>a. s = GSA a \<longrightarrow> c' = cur\<lparr>cur_gsa := Some a\<rparr>)
       \<and> (\<forall>v. s = VTG v \<longrightarrow> c' = cur\<lparr>cur_vtg := Some v\<rparr>)
       \<and> (\<forall>v. s = GSV v \<longrightarrow> c' = cur\<lparr>cur_gsv := Some v\<rparr>)
       \<and> (\<forall>u. s = Unknown u \<longrightarrow> c' = cur)"
  using assms
  by (cases s)
     (auto simp: step_def window_flush_def store_def Let_def clear_point_def msg_time_of_def
           split: option.splits if_splits prod.splits)

theorem C8_store_witness:
  "current_date (snd (step (\<lambda>x. x) 1 initial_data (RMC fix_rmc))) = Some \<lparr>year = 2025, month = 4, day = 29\<rparr>
   \<and> cur_rmc (snd (step (\<lambda>x. x) 1 initial_data (RMC fix_rmc))) = Some fix_rmc
   \<and> last_time (snd (step (\<lambda>x. x) 1 initial_data (RMC fix_rmc)))
       = Some \<lparr>hour = 20, minute = 44, second = 16, microsecond = 0\<rparr>
   \<and> cur_gga (snd (step (\<lambda>x. x) 1 initial_data (GGA fix_gga))) = Some fix_gga
   \<and> snd (step (\<lambda>x. x) 1 initial_data (GSA fix_gsa)) = initial_data\<lparr>cur_gsa := Some fix_gsa\<rparr>"
proof -
  have f: "rmc_time fix_rmc = Some \<lparr>hour = 20, minute = 44, second = 16, microsecond = 0\<rparr>"
    "date fix_rmc = Some \<lparr>year = 2025, month = 4, day = 29\<rparr>"
    by (simp_all add: fix_rmc_def)
  from C8_store [where s = "RMC fix_rmc" and cur = initial_data and time_window = 1
                   and rnd = "\<lambda>x. x", OF refl] f
  have a: "current_date (snd (step (\<lambda>x. x) 1 initial_data (RMC fix_rmc)))
             = Some \<lparr>year = 2025, month = 4, day = 29\<rparr>
        \<and> cur_rmc (snd (step (\<lambda>x. x) 1 initial_data (RMC fix_rmc))) = Some fix_rmc
        \<and> last_time (snd (step (\<lambda>x. x) 1 initial_data (RMC fix_rmc)))
             = Some \<lparr>hour = 20, minute = 44, second = 16, microsecond = 0\<rparr>"
    by simp
  from C8_store [where s = "GGA fix_gga" and cur = initial_data and time_window = 1
                   and rnd = "\<lambda>x. x", OF refl]
  have b: "cur_gga (snd (step (\<lambda>x. x) 1 initial_data (GGA fix_gga))) = Some fix_gga" by simp
  from C8_store [where s = "GSA fix_gsa" and cur = initial_data and time_window = 1
                   and rnd = "\<lambda>x. x", OF refl]
  have c: "snd (step (\<lambda>x. x) 1 initial_data (GSA fix_gsa)) = initial_data\<lparr>cur_gsa := Some fix_gsa\<rparr>"
    by simp
  from a b c show ?thesis by simp
qed

text \<open>
  The claim C8 as stated fails: an RMC sentence that carries a date but no time
  leaves the inherited date as it was.
\<close>

theorem C8_store_counterexample:
  "date dated_rmc = Some \<lparr>year = 2025, month = 4, day = 29\<rparr>
   \<and> rmc_time dated_rmc = None
   \<and> (\<forall>rnd. current_date (snd (step rnd 1 initial_data (RMC dated_rmc))) = None)"
  by (simp add: dated_rmc_def step_def window_flush_def store_def msg_time_of_def initial_data_def
        Let_def)

text \<open>
  C1, as the code has it. Every point that \<open>group_nmea_points\<close> yields holds an
  RMC or a GGA sentence, and \<open>add_trackpoint\<close> writes lines for it only when the
  position sentence has a latitude and a longitude; for the lines a searching
  receiver sends, nothing is written.
\<close>

theorem C1_emitted_points:
  "(\<forall>p \<in> set (group_nmea_points rnd sentences time_window).
       (pt_rmc p \<noteq> None \<or> pt_gga p \<noteq> None)
       \<and> (trackpoint_lines rnd p \<noteq> [] \<longrightarrow> (\<exists>lat lon tm. pos p = Some (Some lat, Some lon, tm))))
   \<and> file_trackpoint_lines rnd gps_searching_data False = []"
proof
  show "\<forall>p \<in> set (group_nmea_points rnd sentences time_window).
       (pt_rmc p \<noteq> None \<or> pt_gga p \<noteq> None)
       \<and> (trackpoint_lines rnd p \<noteq> [] \<longrightarrow> (\<exists>lat lon tm. pos p = Some (Some lat, Some lon, tm)))"
  proof
    fix p assume "p \<in> set (group_nmea_points rnd sentences time_window)"
    then obtain c where "p = get_point c" "cur_rmc c \<noteq> None \<or> cur_gga c \<noteq> None"
      unfolding group_nmea_points_def using run_emits by blast
    then have "pt_rmc p \<noteq> None \<or> pt_gga p \<noteq> None"
      using get_point_has_position by blast
    then show "(pt_rmc p \<noteq> None \<or> pt_gga p \<noteq> None)
         \<and> (trackpoint_lines rnd p \<noteq> [] \<longrightarrow> (\<exists>lat lon tm. pos p = Some (Some lat, Some lon, tm)))"
      using trackpoint_lines_nonempty by blast
  qed
  show "file_trackpoint_lines rnd gps_searching_data False = []"
    unfolding file_trackpoint_lines_def parse_searching_stream snd_conv group_searching
    by (simp add: trackpoint_lines_def pos_def rmc_set_time_def gga_set_time_def
          searching_rmc_def searching_gga_def)
qed

theorem C1_emitted_points_witness:
  "\<lparr>pt_rmc = Some (rmc_set_time (date fix_rmc) fix_rmc),
     pt_gga = Some (gga_set_time (date fix_rmc) fix_gga),
     pt_gsa = None, pt_vtg = None, pt_gsv = None\<rparr>
     \<in> set (group_nmea_points (\<lambda>x. x) [GGA fix_gga, RMC fix_rmc] 1)
   \<and> trackpoint_lines (\<lambda>x. x)
        \<lparr>pt_rmc = Some (rmc_set_time (date fix_rmc) fix_rmc),
         pt_gga = Some (gga_set_time (date fix_rmc) fix_gga),
         pt_gsa = None, pt_vtg = None, pt_gsv = None\<rparr> \<noteq> []
   \<and> (\<exists>lat lon tm.
         pos \<lparr>pt_rmc = Some (rmc_set_time (date fix_rmc) fix_rmc),
              pt_gga = Some (gga_set_time (date fix_rmc) fix_gga),
              pt_gsa = None, pt_vtg = None, pt_gsv = None\<rparr> = Some (Some lat, Some lon, tm))"
proof -
  have m: "\<lparr>pt_rmc = Some (rmc_set_time (date fix_rmc) fix_rmc),
     pt_gga = Some (gga_set_time (date fix_rmc) fix_gga),
     pt_gsa = None, pt_vtg = None, pt_gsv = None\<rparr>
     \<in> set (group_nmea_points (\<lambda>x. x) [GGA fix_gga, RMC fix_rmc] 1)"
    by (simp add: group_fix_pair)
  have n: "trackpoint_lines (\<lambda>x. x)
        \<lparr>pt_rmc = Some (rmc_set_time (date fix_rmc) fix_rmc),
         pt_gga = Some (gga_set_time (date fix_rmc) fix_gga),
         pt_gsa = None, pt_vtg = None, pt_gsv = None\<rparr> \<noteq> []"
    by (simp add: trackpoint_lines_def pos_def rmc_set_time_def fix_rmc_def)
  from C1_emitted_points [of "\<lambda>x. x" "[GGA fix_gga, RMC fix_rmc]" 1] m n show ?thesis by blast
qed

text \<open>
  The claim C1 as stated fails: for the searching lines the state machine yields
  two points, none of whose sentences has a coordinate.
\<close>

theorem C1_searching_counterexample:
  "\<forall>rnd.
     map (\<lambda>p. (attr (pt_rmc p) rmc_latitude, attr (pt_rmc p) rmc_longitude,
                attr (pt_gga p) gga_latitude, attr (pt_gga p) gga_longitude))
         (group_nmea_points rnd (snd (parse_nmea_stream rnd gps_searching_data False)) 1)
     = [(None, None, None, None), (None, None, None, None)]"
  unfolding parse_searching_stream snd_conv group_searching
  by (simp add: attr_def rmc_set_time_def gga_set_time_def searching_rmc_def searching_gga_def)

text \<open>
  C10. When no pending RMC has a date and no date is inherited, the time of the
  position sentence of the point is still a \<open>datetime.time\<close>, and the track
  point written for it has a \<open>time\<close> element whose date part is 1900-01-01.
\<close>

theorem C10_placeholder_date:
  assumes "\<forall>r. cur_rmc cur = Some r \<longrightarrow> date r = None"
    and "current_date cur = None"
    and "pos (get_point cur) = Some (Some lat, Some lon, Some tv)"
  shows "\<exists>t. tv = TimeOfDay t
           \<and> ''        <time>1900-01-01T'' @ zero_pad 2 (hour t) @ '':'' @ zero_pad 2 (minute t)
               @ '':'' @ zero_pad 2 (second t) @ ''.'' @ zero_pad 6 (microsecond t)
               @ ''Z</time>'' \<in> set (trackpoint_lines rnd (get_point cur))"
proof -
  from pos_get_point_time [OF assms] obtain t where t: "tv = TimeOfDay t" by blast
  with assms(3) have "''        <time>'' @ strftime (TimeOfDay t) @ ''</time>''
      \<in> set (trackpoint_lines rnd (get_point cur))"
    by (simp add: trackpoint_lines_def)
  with t show ?thesis by (auto simp: strftime_TimeOfDay)
qed

theorem C10_placeholder_date_witness:
  "current_date (initial_data\<lparr>cur_gga := Some fix_gga\<rparr>) = None
   \<and> pos (get_point (initial_data\<lparr>cur_gga := Some fix_gga\<rparr>)) =
       Some (Some (314281631 / 6000000), Some (5868823 / 1200000),
             Some (TimeOfDay \<lparr>hour = 20, minute = 44, second = 15, microsecond = 0\<rparr>))
   \<and> ''        <time>1900-01-01T20:44:15.000000Z</time>''
       \<in> set (trackpoint_lines (\<lambda>x. x) (get_point (initial_data\<lparr>cur_gga := Some fix_gga\<rparr>)))"
proof -
  have a: "\<forall>r. cur_rmc (initial_data\<lparr>cur_gga := Some fix_gga\<rparr>) = Some r \<longrightarrow> date r = None"
    by (simp add: initial_data_def)
  have b: "current_date (initial_data\<lparr>cur_gga := Some fix_gga\<rparr>) = None"
    by (simp add: initial_data_def)
  have c: "pos (get_point (initial_data\<lparr>cur_gga := Some fix_gga\<rparr>)) =
       Some (Some (314281631 / 6000000), Some (5868823 / 1200000),
             Some (TimeOfDay \<lparr>hour = 20, minute = 44, second = 15, microsecond = 0\<rparr>))"
    by (simp add: initial_data_def pos_def get_point_def gga_set_time_def stamp_def fix_gga_def)
  have z: "zero_pad 2 20 = ''20''" "zero_pad 2 44 = ''44''" "zero_pad 2 15 = ''15''"
    "zero_pad 6 0 = ''000000''"
    by (simp_all add: zero_pad_def replicate_numeral)
  from C10_placeholder_date [where rnd = "\<lambda>x. x", OF a b c] z b c show ?thesis by simp
qed

section \<open>The checksum test (C5)\<close>

subsection \<open>Lists and strings\<close>

lemma split_no_sep: "sep \<notin> set s \<Longrightarrow> split sep s = [s]"
  by (induction s) auto

lemma split_first: "sep \<notin> set a \<Longrightarrow> split sep (a @ sep # b) = a # split sep b"
  by (induction a) (auto split: list.splits)

lemma split_nonempty: "split sep s \<noteq> []"
  by (induction s) (auto split: list.splits)

lemma split_singleton_iff: "split sep s = [x] \<longleftrightarrow> sep \<notin> set s \<and> x = s"
proof (induction s arbitrary: x)
  case Nil
  then show ?case by auto
next
  case (Cons c s)
  show ?case
  proof (cases "c = sep")
    case True
    then show ?thesis using split_nonempty [of sep s] by simp
  next
    case False
    obtain p ps where p: "split sep s = p # ps"
      using split_nonempty [of sep s] by (cases "split sep s") auto
    have "split sep (c # s) = [x] \<longleftrightarrow> split sep s = [p] \<and> x = c # p"
      using False p by auto
    also have "\<dots> \<longleftrightarrow> sep \<notin> set s \<and> p = s \<and> x = c # p"
      using Cons.IH [of p] by simp
    also have "\<dots> \<longleftrightarrow> sep \<notin> set (c # s) \<and> x = c # s"
      using False p by (auto simp: split_no_sep)
    finally show ?thesis .
  qed
qed

text \<open>\<open>rev (dropWhile isspace (rev b))\<close> is \<open>b.rstrip()\<close>.\<close>

lemma strip_framed:
  assumes "\<not> isspace h" "\<not> isspace m"
  shows "strip (h # a @ m # b) = h # a @ m # rev (dropWhile isspace (rev b))"
proof -
  have "dropWhile isspace (rev b @ m # rev a @ [h])
          = dropWhile isspace (rev b) @ m # rev a @ [h]"
    using assms(2) by (rule dropWhile_append3)
  with assms(1) show ?thesis by (simp add: strip_def)
qed

lemma rstrip_keeps:
  "x \<in> set b \<Longrightarrow> \<not> isspace x \<Longrightarrow> x \<in> set (rev (dropWhile isspace (rev b)))"
proof -
  assume a: "x \<in> set b" "\<not> isspace x"
  then have "x \<in> set (rev b)" by simp
  then obtain ys zs where "rev b = ys @ x # zs" by (auto simp: in_set_conv_decomp)
  then have "dropWhile isspace (rev b) = dropWhile isspace ys @ x # zs"
    using a(2) by (simp add: dropWhile_append3)
  then show ?thesis by simp
qed

lemma rstrip_subset: "set (rev (dropWhile isspace (rev b))) \<subseteq> set b"
  by (auto dest: set_dropWhileD)

lemma strip_subset: "set (strip b) \<subseteq> set b"
  unfolding strip_def by (auto dest!: set_dropWhileD)

lemma strip_keeps: "x \<in> set b \<Longrightarrow> \<not> isspace x \<Longrightarrow> x \<in> set (strip b)"
proof -
  assume a: "x \<in> set b" "\<not> isspace x"
  then obtain ys zs where "b = ys @ x # zs" by (auto simp: in_set_conv_decomp)
  then have "dropWhile isspace b = dropWhile isspace ys @ x # zs"
    using a(2) by (simp add: dropWhile_append3)
  then have "x \<in> set (dropWhile isspace b)" by simp
  from this a(2) show ?thesis unfolding strip_def by (rule rstrip_keeps)
qed

lemma star_not_space: "\<not> isspace (CHR ''*'')" "\<not> isspace (CHR ''$'')"
  by (simp_all add: isspace_def)

lemma remove_nulls_append: "remove_nulls (a @ b) = remove_nulls a @ remove_nulls b"
  by (simp add: remove_nulls_def)

lemma remove_nulls_star: "CHR ''*'' \<in> set (remove_nulls b) \<longleftrightarrow> CHR ''*'' \<in> set b"
  by (auto simp: remove_nulls_def)

subsection \<open>The exclusive-or of a string\<close>

lemma foldl_xor_bytes:
  "foldl (\<lambda>acc c. acc XOR of_char c) (int n) s = int (n XOR xor_bytes s)"
proof (induction s arbitrary: n)
  case Nil
  then show ?case by simp
next
  case (Cons c s)
  have "int n XOR of_char c = int (n XOR of_char c)"
    by (simp add: of_nat_xor_eq of_nat_of_char)
  then show ?case using Cons.IH [of "n XOR of_char c"]
    by (simp add: xor.assoc)
qed

lemma calc_cksum_eq: "nat (calc_cksum body) = xor_bytes (drop 1 body)"
  using foldl_xor_bytes [of 0 "drop 1 body"] by (simp add: calc_cksum_def)

lemma xor_bytes_less: "xor_bytes s < 256"
proof -
  have "take_bit 8 (xor_bytes s) = xor_bytes s"
  proof (induction s)
    case Nil
    then show ?case by simp
  next
    case (Cons c s)
    have "take_bit 8 (of_char c :: nat) = of_char c"
      using nat_of_char_less_256 [of c] by (simp add: take_bit_nat_eq_self)
    with Cons show ?case by (simp add: take_bit_xor)
  qed
  then show ?thesis by (simp add: take_bit_nat_eq_self_iff)
qed

lemma xor_bytes_remove_nulls: "xor_bytes (remove_nulls s) = xor_bytes s"
  by (induction s) (simp_all add: remove_nulls_def)

lemma xor_cancel: "(a::nat) XOR b = a XOR c \<Longrightarrow> b = c"
proof -
  assume "a XOR b = a XOR c"
  then have "a XOR (a XOR b) = a XOR (a XOR c)" by simp
  then show "b = c" by (simp add: xor.assoc [symmetric])
qed

lemma xor_twice: "(x::nat) XOR (x XOR y) = y"
  by (simp add: xor.assoc [symmetric])

lemma xor_bytes_update:
  "j < length a \<Longrightarrow> xor_bytes (a[j := c]) = xor_bytes a XOR of_char (a ! j) XOR of_char c"
proof (induction a arbitrary: j)
  case Nil
  then show ?case by simp
next
  case (Cons x a)
  show ?case
  proof (cases j)
    case 0
    then show ?thesis by (simp add: ac_simps xor_twice)
  next
    case (Suc k)
    with Cons show ?thesis by (simp add: xor.assoc)
  qed
qed

lemma xor_bytes_corrupt:
  assumes "j < length a" "c \<noteq> a ! j"
  shows "xor_bytes (a[j := c]) \<noteq> xor_bytes a"
proof
  assume "xor_bytes (a[j := c]) = xor_bytes a"
  with xor_bytes_update [OF assms(1), of c]
  have "xor_bytes a XOR (of_char (a ! j) XOR of_char c) = xor_bytes a XOR 0"
    by (simp add: xor.assoc)
  then have "(of_char (a ! j) :: nat) XOR of_char c = 0" by (rule xor_cancel)
  then have "(of_char (a ! j) :: nat) XOR of_char c = of_char (a ! j) XOR of_char (a ! j)"
    by simp
  then have "(of_char c :: nat) = of_char (a ! j)" by (rule xor_cancel)
  with assms(2) show False by simp
qed


subsection \<open>Two hexadecimal digits\<close>

lemma format_02X_two: "n < 256 \<Longrightarrow> format_02X n = two_hex_digits n"
proof (cases "n < 16")
  case True
  then show ?thesis by (simp add: format_02X_def two_hex_digits_def hex_char_def)
next
  case False
  assume "n < 256"
  then have d: "n div 16 < 16" by simp
  have "hex_digits n = hex_digits (n div 16) @ [hex_char (n mod 16)]"
    using False by (subst hex_digits.simps) simp
  also have "hex_digits (n div 16) = [hex_char (n div 16)]"
    using d by (subst hex_digits.simps) simp
  finally show ?thesis by (simp add: format_02X_def two_hex_digits_def hex_char_def)
qed

lemma two_hex_digits_inj:
  assumes "m < 256" "n < 256" "two_hex_digits m = two_hex_digits n"
  shows "m = n"
proof -
  have dist: "distinct ''0123456789ABCDEF''" by simp
  have len: "length ''0123456789ABCDEF'' = 16" by simp
  from assms(1,2) have b: "m div 16 < 16" "n div 16 < 16" "m mod 16 < 16" "n mod 16 < 16"
    by simp_all
  from assms(3) have "''0123456789ABCDEF'' ! (m div 16) = ''0123456789ABCDEF'' ! (n div 16)"
    and "''0123456789ABCDEF'' ! (m mod 16) = ''0123456789ABCDEF'' ! (n mod 16)"
    by (simp_all add: two_hex_digits_def)
  with dist b len have "m div 16 = n div 16" "m mod 16 = n mod 16"
    by (simp_all add: nth_eq_iff_index_eq del: distinct.simps nth_Cons_numeral)
  then show ?thesis by (metis div_mult_mod_eq)
qed

lemma two_hex_digits_set: "n < 256 \<Longrightarrow> set (two_hex_digits n) \<subseteq> set ''0123456789ABCDEF''"
proof -
  assume "n < 256"
  then have a: "n div 16 < length ''0123456789ABCDEF''"
    and b: "n mod 16 < length ''0123456789ABCDEF''"
    by simp_all
  from a have "''0123456789ABCDEF'' ! (n div 16) \<in> set ''0123456789ABCDEF''"
    by (rule nth_mem)
  moreover from b have "''0123456789ABCDEF'' ! (n mod 16) \<in> set ''0123456789ABCDEF''"
    by (rule nth_mem)
  ultimately show ?thesis unfolding two_hex_digits_def by simp
qed

lemma upper_two_hex_digits: "n < 256 \<Longrightarrow> upper (two_hex_digits n) = two_hex_digits n"
proof -
  assume "n < 256"
  then have s: "set (two_hex_digits n) \<subseteq> set ''0123456789ABCDEF''" by (rule two_hex_digits_set)
  have "\<forall>c \<in> set ''0123456789ABCDEF''. upper_char c = c"
    by (simp add: upper_char_def)
  with s have "\<forall>c \<in> set (two_hex_digits n). upper_char c = c" by blast
  then show ?thesis unfolding upper_def by (simp add: map_idI)
qed

lemma star_not_hex: "n < 256 \<Longrightarrow> CHR ''*'' \<notin> set (two_hex_digits n)"
  using two_hex_digits_set [of n] by auto

lemma upper_star: "CHR ''*'' \<in> set s \<Longrightarrow> CHR ''*'' \<in> set (upper s)"
proof -
  assume "CHR ''*'' \<in> set s"
  then have "upper_char (CHR ''*'') \<in> upper_char ` set s" by (rule imageI)
  then show ?thesis by (simp add: upper_def upper_char_def)
qed


subsection \<open>The framing of a line\<close>

lemma strip_nulls_framed:
  "strip (remove_nulls (CHR ''$'' # p @ CHR ''*'' # q))
     = CHR ''$'' # remove_nulls p @ CHR ''*'' # rev (dropWhile isspace (rev (remove_nulls q)))"
proof -
  have "remove_nulls (CHR ''$'' # p @ CHR ''*'' # q)
          = CHR ''$'' # remove_nulls p @ CHR ''*'' # remove_nulls q"
    by (simp add: remove_nulls_def)
  then show ?thesis by (simp add: strip_framed star_not_space)
qed

lemma star_rstrip_nulls:
  "CHR ''*'' \<in> set (rev (dropWhile isspace (rev (remove_nulls q)))) \<longleftrightarrow> CHR ''*'' \<in> set q"
proof
  assume "CHR ''*'' \<in> set (rev (dropWhile isspace (rev (remove_nulls q))))"
  with rstrip_subset [of "remove_nulls q"] have "CHR ''*'' \<in> set (remove_nulls q)" by blast
  then show "CHR ''*'' \<in> set q" by (simp add: remove_nulls_star)
next
  assume "CHR ''*'' \<in> set q"
  then have "CHR ''*'' \<in> set (remove_nulls q)" by (simp add: remove_nulls_star)
  then show "CHR ''*'' \<in> set (rev (dropWhile isspace (rev (remove_nulls q))))"
    using star_not_space(1) by (rule rstrip_keeps)
qed

lemma passes_framed:
  assumes "CHR ''*'' \<notin> set p"
  shows "checksum_passes (CHR ''$'' # p @ CHR ''*'' # q) \<longleftrightarrow>
           CHR ''*'' \<notin> set q
           \<and> two_hex_digits (xor_bytes p)
               = upper (strip (rev (dropWhile isspace (rev (remove_nulls q)))))"
proof -
  define a where "a = remove_nulls p"
  define b where "b = rev (dropWhile isspace (rev (remove_nulls q)))"
  have l: "strip (remove_nulls (CHR ''$'' # p @ CHR ''*'' # q)) = CHR ''$'' # a @ CHR ''*'' # b"
    unfolding a_def b_def by (rule strip_nulls_framed)
  from assms have na: "CHR ''*'' \<notin> set (CHR ''$'' # a)"
    by (simp add: a_def remove_nulls_def)
  have sp: "split (CHR ''*'') (CHR ''$'' # a @ CHR ''*'' # b) = (CHR ''$'' # a) # split (CHR ''*'') b"
    using split_first [OF na, of b] by simp
  have sb: "CHR ''*'' \<in> set b \<longleftrightarrow> CHR ''*'' \<in> set q"
    unfolding b_def by (rule star_rstrip_nulls)
  have x: "nat (calc_cksum (CHR ''$'' # a)) = xor_bytes p"
    by (simp add: calc_cksum_eq a_def xor_bytes_remove_nulls)
  have f: "format_02X (xor_bytes p) = two_hex_digits (xor_bytes p)"
    by (rule format_02X_two) (rule xor_bytes_less)
  show ?thesis
  proof (cases "CHR ''*'' \<in> set q")
    case True
    with sb have "CHR ''*'' \<in> set b" by simp
    then have "\<And>y. split (CHR ''*'') b \<noteq> [y]" by (simp add: split_singleton_iff)
    with split_nonempty [of "CHR ''*''" b]
    obtain y z zs where "split (CHR ''*'') b = y # z # zs"
      by (cases "split (CHR ''*'') b"; cases "tl (split (CHR ''*'') b)") auto
    with True l sp show ?thesis
      by (simp add: checksum_passes_def startswith_def verify_checksum_def split_checksum_def
            bind_log_def quiet_def)
  next
    case False
    with sb have "CHR ''*'' \<notin> set b" by simp
    then have "split (CHR ''*'') b = [b]" by (rule split_no_sep)
    with False l sp x f show ?thesis
      by (simp add: checksum_passes_def startswith_def verify_checksum_def split_checksum_def
            bind_log_def quiet_def returns_def b_def)
  qed
qed

lemma takeWhile_first: "x \<notin> set a \<Longrightarrow> takeWhile (\<lambda>c. c \<noteq> x) (a @ x # r) = a"
  by (induction a) auto

lemma dropWhile_first: "x \<notin> set a \<Longrightarrow> dropWhile (\<lambda>c. c \<noteq> x) (a @ x # r) = x # r"
  by (induction a) auto

lemma spec_framed:
  assumes "CHR ''*'' \<notin> set p"
  shows "spec_payload (CHR ''$'' # p @ CHR ''*'' # q) = remove_nulls p"
    and "spec_checksum_field (CHR ''$'' # p @ CHR ''*'' # q)
           = rev (dropWhile isspace (rev (remove_nulls q)))"
    and "CHR ''*'' \<in> set (strip (remove_nulls (CHR ''$'' # p @ CHR ''*'' # q)))"
proof -
  from assms have na: "CHR ''*'' \<notin> set (remove_nulls p)" by (simp add: remove_nulls_def)
  then have t: "takeWhile (\<lambda>c. c \<noteq> CHR ''*'') (remove_nulls p @ CHR ''*'' # r) = remove_nulls p"
    and d: "dropWhile (\<lambda>c. c \<noteq> CHR ''*'') (remove_nulls p @ CHR ''*'' # r) = CHR ''*'' # r" for r
    by (simp_all add: takeWhile_first dropWhile_first)
  show "spec_payload (CHR ''$'' # p @ CHR ''*'' # q) = remove_nulls p"
    unfolding spec_payload_def strip_nulls_framed using t by simp
  show "spec_checksum_field (CHR ''$'' # p @ CHR ''*'' # q)
           = rev (dropWhile isspace (rev (remove_nulls q)))"
    unfolding spec_checksum_field_def strip_nulls_framed using d by simp
  show "CHR ''*'' \<in> set (strip (remove_nulls (CHR ''$'' # p @ CHR ''*'' # q)))"
    unfolding strip_nulls_framed by simp
qed

lemma no_star_fails:
  assumes "CHR ''*'' \<notin> set line"
  shows "\<not> checksum_passes line" and "CHR ''*'' \<notin> set (strip (remove_nulls line))"
proof -
  have "set (strip (remove_nulls line)) \<subseteq> set line"
    using strip_subset [of "remove_nulls line"] by (auto simp: remove_nulls_def)
  with assms show n: "CHR ''*'' \<notin> set (strip (remove_nulls line))" by blast
  then show "\<not> checksum_passes line"
    by (simp add: checksum_passes_def verify_checksum_def split_checksum_def bind_log_def
          quiet_def)
qed

lemma dollar_line:
  assumes "startswith line ''$''"
  obtains rest where "line = CHR ''$'' # rest"
  using assms by (cases line) (auto simp: startswith_def)


lemma framed_equiv:
  assumes "CHR ''*'' \<notin> set p"
  shows "checksum_passes (CHR ''$'' # p @ CHR ''*'' # q) \<longleftrightarrow>
           upper (strip (spec_checksum_field (CHR ''$'' # p @ CHR ''*'' # q)))
             = upper (two_hex_digits (xor_bytes (spec_payload (CHR ''$'' # p @ CHR ''*'' # q))))"
proof -
  define b where "b = rev (dropWhile isspace (rev (remove_nulls q)))"
  have u: "upper (two_hex_digits (xor_bytes (remove_nulls p))) = two_hex_digits (xor_bytes p)"
    by (simp add: xor_bytes_remove_nulls upper_two_hex_digits xor_bytes_less)
  have star: "upper (strip b) \<noteq> two_hex_digits (xor_bytes p)" if "CHR ''*'' \<in> set q"
  proof
    assume e: "upper (strip b) = two_hex_digits (xor_bytes p)"
    from that have "CHR ''*'' \<in> set b" unfolding b_def by (rule star_rstrip_nulls [THEN iffD2])
    then have "CHR ''*'' \<in> set (strip b)" using star_not_space(1) by (rule strip_keeps)
    then have "CHR ''*'' \<in> set (upper (strip b))" by (rule upper_star)
    with e star_not_hex [OF xor_bytes_less, of p] show False by simp
  qed
  from passes_framed [OF assms, of q] spec_framed(1,2) [OF assms, of q] u star
  show ?thesis unfolding b_def by auto
qed

text \<open>
  C5, as the code has it. For a line that starts with \<open>$\<close> and is ASCII, as
  \<open>parse_nmea_stream\<close> hands it over, the checksum test passes exactly when the
  stripped line holds a \<open>*\<close> and the exclusive-or of the bytes between the \<open>$\<close>
  and the first \<open>*\<close>, written as two upper-case hexadecimal digits, equals what
  follows that \<open>*\<close> once its surrounding white space is removed, compared
  without regard to case. And when a line passes, putting a different character
  in place of any one character between the \<open>$\<close> and the \<open>*\<close> makes the test
  fail.
\<close>

theorem C5_checksum:
  assumes "startswith line ''$''" and "decode_ascii line = line"
  shows "(checksum_passes line \<longleftrightarrow>
            CHR ''*'' \<in> set (strip (remove_nulls line))
            \<and> upper (strip (spec_checksum_field line))
                = upper (two_hex_digits (xor_bytes (spec_payload line))))
       \<and> (checksum_passes line \<and> 0 < i \<and> i < length (takeWhile (\<lambda>c. c \<noteq> CHR ''*'') line)
            \<and> c \<noteq> line ! i \<and> (of_char c :: nat) < 128
          \<longrightarrow> \<not> checksum_passes (line[i := c]))"
proof -
  from assms(1) obtain rest where line: "line = CHR ''$'' # rest" by (rule dollar_line)
  show ?thesis
  proof (cases "CHR ''*'' \<in> set rest")
    case False
    with line have "CHR ''*'' \<notin> set line" by simp
    then show ?thesis using no_star_fails [of line] by simp
  next
    case True
    then obtain p q where rest: "rest = p @ CHR ''*'' # q" and np: "CHR ''*'' \<notin> set p"
      by (auto dest: split_list_first)
    have first: "checksum_passes line \<longleftrightarrow>
            CHR ''*'' \<in> set (strip (remove_nulls line))
            \<and> upper (strip (spec_checksum_field line))
                = upper (two_hex_digits (xor_bytes (spec_payload line)))"
      unfolding line rest using framed_equiv [OF np, of q] spec_framed(3) [OF np, of q] by simp
    have second: "\<not> checksum_passes (line[i := c])"
      if pass: "checksum_passes line" and i: "0 < i" "i < length (takeWhile (\<lambda>c. c \<noteq> CHR ''*'') line)"
        and c: "c \<noteq> line ! i"
    proof -
      have tw: "takeWhile (\<lambda>c. c \<noteq> CHR ''*'') line = CHR ''$'' # p"
        unfolding line rest using np by (simp add: takeWhile_first)
      from i tw obtain j where j: "i = Suc j" "j < length p" by (cases i) auto
      with line rest have upd: "line[i := c] = CHR ''$'' # p[j := c] @ CHR ''*'' # q"
        by (simp add: list_update_append)
      from j line rest c have cj: "c \<noteq> p ! j" by (simp add: nth_append)
      show ?thesis
      proof (cases "c = CHR ''*''")
        case True
        from j(2) have "p[j := c] = take j p @ c # drop (Suc j) p"
          by (rule upd_conv_take_nth_drop)
        with upd True
        have l': "line[i := c] = CHR ''$'' # take j p @ CHR ''*'' # (drop (Suc j) p @ CHR ''*'' # q)"
          by simp
        from np have "CHR ''*'' \<notin> set (take j p)" by (auto dest: in_set_takeD)
        from passes_framed [OF this, of "drop (Suc j) p @ CHR ''*'' # q"] show ?thesis
          unfolding l' by simp
      next
        case False
        with np have np': "CHR ''*'' \<notin> set (p[j := c])"
          using set_update_subset_insert [of p j c] by auto
        from pass passes_framed [OF np, of q]
        have a: "two_hex_digits (xor_bytes p)
                   = upper (strip (rev (dropWhile isspace (rev (remove_nulls q)))))"
          unfolding line rest by simp
        show ?thesis
        proof
          assume "checksum_passes (line[i := c])"
          with passes_framed [OF np', of q]
          have "two_hex_digits (xor_bytes (p[j := c]))
                   = upper (strip (rev (dropWhile isspace (rev (remove_nulls q)))))"
            unfolding upd by simp
          with a have "two_hex_digits (xor_bytes (p[j := c])) = two_hex_digits (xor_bytes p)"
            by simp
          then have "xor_bytes (p[j := c]) = xor_bytes p"
            using xor_bytes_less xor_bytes_less by (rule two_hex_digits_inj [rotated 2])
          with xor_bytes_corrupt [OF j(2) cj] show False by simp
        qed
      qed
    qed
    from first second show ?thesis by blast
  qed
qed


theorem C5_checksum_witness:
  "startswith ''$GNRMC,,V,,,,,,,,,,N*4d'' ''$''
   \<and> decode_ascii ''$GNRMC,,V,,,,,,,,,,N*4d'' = ''$GNRMC,,V,,,,,,,,,,N*4d''
   \<and> checksum_passes ''$GNRMC,,V,,,,,,,,,,N*4d''
   \<and> spec_payload ''$GNRMC,,V,,,,,,,,,,N*4d'' = ''GNRMC,,V,,,,,,,,,,N''
   \<and> spec_checksum_field ''$GNRMC,,V,,,,,,,,,,N*4d'' = ''4d''
   \<and> two_hex_digits (xor_bytes ''GNRMC,,V,,,,,,,,,,N'') = ''4D''
   \<and> ''$GNRMC,,V,,,,,,,,,,N*4d'' [8 := CHR ''A''] = ''$GNRMC,,A,,,,,,,,,,N*4d''
   \<and> \<not> checksum_passes ''$GNRMC,,A,,,,,,,,,,N*4d''"
proof -
  have s: "startswith ''$GNRMC,,V,,,,,,,,,,N*4d'' ''$''"
    by (simp add: startswith_def)
  have a: "decode_ascii ''$GNRMC,,V,,,,,,,,,,N*4d'' = ''$GNRMC,,V,,,,,,,,,,N*4d''"
    by (simp add: decode_ascii_def)
  have p: "checksum_passes ''$GNRMC,,V,,,,,,,,,,N*4d''"
    by code_simp
  have f: "spec_payload ''$GNRMC,,V,,,,,,,,,,N*4d'' = ''GNRMC,,V,,,,,,,,,,N''"
    "spec_checksum_field ''$GNRMC,,V,,,,,,,,,,N*4d'' = ''4d''"
    by (simp_all add: spec_payload_def spec_checksum_field_def prim_defs)
  have u: "upper (strip ''4d'') = ''4D''"
    by code_simp
  have i: "(0::nat) < 8" "8 < length (takeWhile (\<lambda>c. c \<noteq> CHR ''*'') ''$GNRMC,,V,,,,,,,,,,N*4d'')"
    "CHR ''A'' \<noteq> ''$GNRMC,,V,,,,,,,,,,N*4d'' ! 8" "(of_char (CHR ''A'') :: nat) < 128"
    "''$GNRMC,,V,,,,,,,,,,N*4d'' [8 := CHR ''A''] = ''$GNRMC,,A,,,,,,,,,,N*4d''"
    by simp_all
  from C5_checksum [OF s a, of 8 "CHR ''A''"] p f u i
  have "upper (two_hex_digits (xor_bytes ''GNRMC,,V,,,,,,,,,,N'')) = ''4D''"
    and "\<not> checksum_passes ''$GNRMC,,A,,,,,,,,,,N*4d''"
    by simp_all
  with s a p f i(5) show ?thesis
    by (simp add: upper_two_hex_digits xor_bytes_less)
qed

text \<open>
  The claim C5 as stated fails: the code strips the checksum field before it
  compares, so a line whose field is padded with a space passes, although the
  field is not the two hexadecimal digits.
\<close>

theorem C5_padded_field_counterexample:
  "checksum_passes ''$GNRMC,,V,,,,,,,,,,N* 4D''
   \<and> spec_checksum_field ''$GNRMC,,V,,,,,,,,,,N* 4D'' = '' 4D''
   \<and> \<not> spec_checksum_valid ''$GNRMC,,V,,,,,,,,,,N* 4D''"
proof -
  have p: "checksum_passes ''$GNRMC,,V,,,,,,,,,,N* 4D''"
    by (simp add: checksum_passes_def parse_defs prim_defs returns_def quiet_def bind_log_def)
  have f: "spec_checksum_field ''$GNRMC,,V,,,,,,,,,,N* 4D'' = '' 4D''"
    by (simp add: spec_checksum_field_def prim_defs)
  have "\<not> spec_checksum_valid ''$GNRMC,,V,,,,,,,,,,N* 4D''"
    unfolding spec_checksum_valid_def f by (simp add: upper_def two_hex_digits_def)
  with p f show ?thesis by simp
qed

end
